theory Spec2Isabelle
  imports Complex_Main "HOL-Library.AList" "HOL-Library.Multiset"
begin

section \<open>Python values\<close>

text \<open>
  The backend passes plain Python data around: \<^verbatim>\<open>None\<close>, booleans, integers, strings,
  lists and dictionaries with string keys.  A dictionary is an association list in
  insertion order (its keys distinct); \<^verbatim>\<open>d.get(k)\<close> yields \<^verbatim>\<open>None\<close> for a missing key.
  Strings are lists of 8-bit characters.  Numbers inside such data are integers.  A
  Python float is modelled by its exact value, a rational number; the floats returned by
  the quiz feedback are computed with every operation rounded to the nearest binary64
  number (see \<open>double_of\<close> below).
\<close>

datatype json =
    JNull
  | JBool bool
  | JInt int
  | JStr string
  | JList "json list"
  | JObj "(string \<times> json) list"

type_synonym pydict = "(string \<times> json) list"

definition dict_get :: "pydict \<Rightarrow> string \<Rightarrow> json" where
  "dict_get d k = (case map_of d k of None \<Rightarrow> JNull | Some v \<Rightarrow> v)"

definition dict_get_default :: "pydict \<Rightarrow> string \<Rightarrow> json \<Rightarrow> json" where
  "dict_get_default d k dflt = (case map_of d k of None \<Rightarrow> dflt | Some v \<Rightarrow> v)"

definition has_key :: "pydict \<Rightarrow> string \<Rightarrow> bool" where
  "has_key d k = (map_of d k \<noteq> None)"

text \<open>Python truthiness, as used by \<^verbatim>\<open>if x\<close>, \<^verbatim>\<open>not x\<close>, \<^verbatim>\<open>x and y\<close>, \<^verbatim>\<open>x or y\<close>.\<close>

fun truthy :: "json \<Rightarrow> bool" where
  "truthy JNull = False"
| "truthy (JBool b) = b"
| "truthy (JInt i) = (i \<noteq> 0)"
| "truthy (JStr s) = (s \<noteq> [])"
| "truthy (JList xs) = (xs \<noteq> [])"
| "truthy (JObj d) = (d \<noteq> [])"

text \<open>Exceptions.  Every class below derives from \<^verbatim>\<open>Exception\<close>; the three service errors
  are those of the model client library, where \<^verbatim>\<open>AuthenticationError\<close> is an \<^verbatim>\<open>APIError\<close>
  and every \<^verbatim>\<open>APIError\<close> is an \<^verbatim>\<open>OpenAIError\<close>.  The optional integer is the
  \<^verbatim>\<open>status_code\<close> attribute, when the exception object has one.\<close>

datatype exn =
    ValueError string
  | TypeError string
  | AttributeError string
  | IndexError string
  | ValidationError string
  | AuthenticationError string "int option"
  | APIError string "int option"
  | OpenAIError string
  | OtherException string

fun exn_str :: "exn \<Rightarrow> string" where
  "exn_str (ValueError m) = m"
| "exn_str (TypeError m) = m"
| "exn_str (AttributeError m) = m"
| "exn_str (IndexError m) = m"
| "exn_str (ValidationError m) = m"
| "exn_str (AuthenticationError m c) = m"
| "exn_str (APIError m c) = m"
| "exn_str (OpenAIError m) = m"
| "exn_str (OtherException m) = m"

subsection \<open>Strings\<close>

definition digit_char :: "nat \<Rightarrow> char" where
  "digit_char n = ''0123456789abcdef'' ! n"

fun str_of_nat :: "nat \<Rightarrow> string" where
  "str_of_nat n =
     (if n < 10 then [digit_char n]
      else str_of_nat (n div 10) @ [digit_char (n mod 10)])"

declare str_of_nat.simps [simp del]

definition str_of_int :: "int \<Rightarrow> string" where
  "str_of_int i = (if i < 0 then CHR ''-'' # str_of_nat (nat (- i)) else str_of_nat (nat i))"

text \<open>\<^verbatim>\<open>str.isspace\<close> on the characters below code point 256.\<close>

definition py_isspace :: "char \<Rightarrow> bool" where
  "py_isspace c = (of_char c \<in> {9, 10, 11, 12, 13, 28, 29, 30, 31, 32, 133, 160 :: nat})"

definition py_strip :: "string \<Rightarrow> string" where
  "py_strip s = rev (dropWhile py_isspace (rev (dropWhile py_isspace s)))"

definition startswith :: "string \<Rightarrow> string \<Rightarrow> bool" where
  "startswith s p = (take (length p) s = p)"

section \<open>Configuration (config.py)\<close>

record settings =
  OPENAI_API_KEY :: string
  ENVIRONMENT :: string
  DEBUG :: bool

text \<open>The field validator of \<^verbatim>\<open>OPENAI_API_KEY\<close>.  The first component is what the validator
  prints, the second what it returns or raises.\<close>

definition validate_and_strip_api_key :: "string \<Rightarrow> string list \<times> (exn + string)" where
  "validate_and_strip_api_key v =
     (if v = [] then ([], Inl (ValueError ''OPENAI_API_KEY cannot be empty''))
      else
        let api_key = py_strip v;
            printed = (if \<not> startswith api_key ''sk-''
                       then [''Warning: API key doesn't start with 'sk-' (first 3 chars: ''
                              @ take 3 api_key @ '')'']
                       else [])
        in if length api_key < 20
           then (printed, Inl (ValueError (''OPENAI_API_KEY seems too short (length: ''
                   @ str_of_nat (length api_key) @ ''). Please check your .env file.'')))
           else (printed, Inr api_key))"

text \<open>Constructing \<^verbatim>\<open>Settings()\<close>: the key is required (the argument is \<open>None\<close> when the
  environment does not define it), and a validator's \<^verbatim>\<open>ValueError\<close> surfaces as the
  settings library's validation error.\<close>

definition Settings :: "string option \<Rightarrow> string \<Rightarrow> bool \<Rightarrow> exn + settings" where
  "Settings env_key env dbg =
     (case env_key of
        None \<Rightarrow> Inl (ValidationError ''OPENAI_API_KEY: Field required'')
      | Some v \<Rightarrow>
          (case snd (validate_and_strip_api_key v) of
             Inl e \<Rightarrow> Inl (ValidationError (exn_str e))
           | Inr k \<Rightarrow> Inr \<lparr>OPENAI_API_KEY = k, ENVIRONMENT = env, DEBUG = dbg\<rparr>))"

definition get_settings :: "string option \<Rightarrow> string \<Rightarrow> bool \<Rightarrow> exn + settings" where
  "get_settings env_key env dbg =
     (case Settings env_key env dbg of
        Inl e \<Rightarrow> Inl e
      | Inr s \<Rightarrow>
          if OPENAI_API_KEY s = []
          then Inl (ValueError ''OPENAI_API_KEY is missing. Please check your .env file.'')
          else Inr s)"

subsection \<open>More string and list operations of Python\<close>

text \<open>\<^verbatim>\<open>sep.join(xs)\<close>.\<close>

fun join :: "string \<Rightarrow> string list \<Rightarrow> string" where
  "join sep [] = []"
| "join sep [x] = x"
| "join sep (x # y # ys) = x @ sep @ join sep (y # ys)"

text \<open>\<^verbatim>\<open>repr\<close> of a string: single quotes unless the string has a single quote and no
  double quote; backslash escapes for the quote, the backslash and control characters.\<close>

definition repr_char :: "char \<Rightarrow> char \<Rightarrow> string" where
  "repr_char q c =
     (let n = (of_char c :: nat) in
      if c = q \<or> c = CHR 0x5C then [CHR 0x5C, c]
      else if n = 10 then [CHR 0x5C, CHR ''n'']
      else if n = 13 then [CHR 0x5C, CHR ''r'']
      else if n = 9 then [CHR 0x5C, CHR ''t'']
      else if n < 32 \<or> (127 \<le> n \<and> n \<le> 160) \<or> n = 173
        then [CHR 0x5C, CHR ''x'', digit_char (n div 16), digit_char (n mod 16)]
      else [c])"

definition repr_str :: "string \<Rightarrow> string" where
  "repr_str s =
     (let q = (if CHR 0x27 \<in> set s \<and> CHR 0x22 \<notin> set s then CHR 0x22 else CHR 0x27)
      in q # concat (map (repr_char q) s) @ [q])"

text \<open>\<^verbatim>\<open>str(v)\<close> (flag \<open>False\<close>, what an f-string interpolates) and \<^verbatim>\<open>repr(v)\<close> (flag
  \<open>True\<close>, used for the elements of a container).\<close>

fun py_fmt :: "bool \<Rightarrow> json \<Rightarrow> string" where
  "py_fmt r JNull = ''None''"
| "py_fmt r (JBool b) = (if b then ''True'' else ''False'')"
| "py_fmt r (JInt i) = str_of_int i"
| "py_fmt r (JStr s) = (if r then repr_str s else s)"
| "py_fmt r (JList xs) = ''['' @ join '', '' (map (py_fmt True) xs) @ '']''"
| "py_fmt r (JObj d) =
     ''{'' @ join '', '' (map (\<lambda>(k, v). repr_str k @ '': '' @ py_fmt True v) d) @ ''}''"

abbreviation py_str :: "json \<Rightarrow> string" where
  "py_str \<equiv> py_fmt False"

text \<open>Case conversion acts on the ASCII letters; other characters are left as they are.\<close>

definition is_upper :: "char \<Rightarrow> bool" where
  "is_upper c = (65 \<le> (of_char c :: nat) \<and> (of_char c :: nat) \<le> 90)"

definition is_lower :: "char \<Rightarrow> bool" where
  "is_lower c = (97 \<le> (of_char c :: nat) \<and> (of_char c :: nat) \<le> 122)"

definition lower_char :: "char \<Rightarrow> char" where
  "lower_char c = (if is_upper c then char_of ((of_char c :: nat) + 32) else c)"

definition upper_char :: "char \<Rightarrow> char" where
  "upper_char c = (if is_lower c then char_of ((of_char c :: nat) - 32) else c)"

definition py_lower :: "string \<Rightarrow> string" where
  "py_lower s = map lower_char s"

text \<open>\<^verbatim>\<open>str.title()\<close>: a letter that follows a letter is lowered, any other letter is
  raised.  The flag says whether the previous character was a letter.\<close>

fun title_from :: "bool \<Rightarrow> string \<Rightarrow> string" where
  "title_from prev [] = []"
| "title_from prev (c # cs) =
     (if is_upper c \<or> is_lower c
      then (if prev then lower_char c else upper_char c) # title_from True cs
      else c # title_from False cs)"

definition py_title :: "string \<Rightarrow> string" where
  "py_title s = title_from False s"

text \<open>\<^verbatim>\<open>kw in s\<close> on strings: \<open>kw\<close> occurs in \<open>s\<close> as a contiguous piece.\<close>

fun str_contains :: "string \<Rightarrow> string \<Rightarrow> bool" where
  "str_contains kw [] = (kw = [])"
| "str_contains kw (c # cs) = (take (length kw) (c # cs) = kw \<or> str_contains kw cs)"

text \<open>\<^verbatim>\<open>xs[-n:]\<close> and \<^verbatim>\<open>xs[:n]\<close> (\<open>n\<close> may be negative in the second).\<close>

definition lastn :: "nat \<Rightarrow> 'a list \<Rightarrow> 'a list" where
  "lastn n xs = drop (length xs - n) xs"

definition slice_to :: "'a list \<Rightarrow> int \<Rightarrow> 'a list" where
  "slice_to xs n = (if 0 \<le> n then take (nat n) xs else take (length xs - nat (- n)) xs)"

text \<open>\<^verbatim>\<open>int(x)\<close> on a number: truncation towards zero.  It is applied to the shares
  \<^verbatim>\<open>quiz_size * 0.3\<close> and \<^verbatim>\<open>quiz_size * 0.5\<close> of a quiz, which are taken as the exact
  products.\<close>

definition py_trunc :: "rat \<Rightarrow> int" where
  "py_trunc x = (if 0 \<le> x then \<lfloor>x\<rfloor> else \<lceil>x\<rceil>)"

definition round_half_even :: "rat \<Rightarrow> int" where
  "round_half_even x =
     (let f = \<lfloor>x\<rfloor>; d = x - of_int f
      in if d < 1 / 2 then f else if 1 / 2 < d then f + 1 else if even f then f else f + 1)"

subsection \<open>Binary64 arithmetic\<close>

text \<open>\<open>double_of x\<close> is the binary64 number nearest to the rational \<open>x\<close>, a tie going to the
  even significand: for \<open>x \<noteq> 0\<close> the exponent \<open>e\<close> is chosen with
  \<open>2\<^sup>5\<^sup>2 \<le> |x| / 2\<^sup>e < 2\<^sup>5\<^sup>3\<close> and the significand is \<open>|x| / 2\<^sup>e\<close> rounded to an integer.
  Overflow and subnormal numbers are not modelled; the quantities computed here (a
  quotient of two list lengths, a percentage, a time in seconds) are far from both.
  Python's \<^verbatim>\<open>a / b\<close> on integers and \<^verbatim>\<open>x * y\<close> on floats return \<open>double_of\<close> of the exact
  quotient and product.\<close>

function bitlen_int :: "int \<Rightarrow> int" where
  "bitlen_int n = (if n \<le> 0 then 0 else 1 + bitlen_int (n div 2))"
  by pat_completeness auto

termination
  by (relation "measure nat") auto

declare bitlen_int.simps [simp del]

definition pow2 :: "int \<Rightarrow> rat" where
  "pow2 e = (if 0 \<le> e then 2 ^ nat e else 1 / 2 ^ nat (- e))"

definition double_of :: "rat \<Rightarrow> rat" where
  "double_of x =
     (if x = 0 then 0
      else let ax = \<bar>x\<bar>;
               a = bitlen_int (fst (quotient_of ax)) - bitlen_int (snd (quotient_of ax));
               lg = (if pow2 a \<le> ax then a else a - 1);
               e = lg - 52;
               m = round_half_even (ax / pow2 e)
           in sgn x * of_int m * pow2 e)"

text \<open>\<^verbatim>\<open>round(x, 2)\<close> on a float \<open>x\<close>: the exact value of \<open>x\<close> is rounded to the nearest
  hundredth (a tie going to the even neighbour), and the float nearest to that decimal
  is returned.\<close>

definition py_round2 :: "rat \<Rightarrow> rat" where
  "py_round2 x = double_of (of_int (round_half_even (x * 100)) / 100)"

text \<open>Randomness is a parameter.  An oracle \<open>c\<close> answers, for the number of elements
  still to choose from, which position is taken next; \<^verbatim>\<open>random.sample(xs, k)\<close> takes
  \<open>k\<close> positions of \<open>xs\<close>, none twice, and raises when \<open>k\<close> is negative or larger than
  the population; \<^verbatim>\<open>random.shuffle\<close> takes all of them.\<close>

fun pick_distinct :: "(nat \<Rightarrow> nat) \<Rightarrow> 'a list \<Rightarrow> nat \<Rightarrow> 'a list" where
  "pick_distinct c xs 0 = []"
| "pick_distinct c xs (Suc k) =
     (if xs = [] then []
      else let i = c (length xs) mod length xs
           in xs ! i # pick_distinct c (take i xs @ drop (Suc i) xs) k)"

definition random_sample :: "(nat \<Rightarrow> nat) \<Rightarrow> 'a list \<Rightarrow> int \<Rightarrow> exn + 'a list" where
  "random_sample c xs k =
     (if k < 0 \<or> int (length xs) < k
      then Inl (ValueError ''Sample larger than population or is negative'')
      else Inr (pick_distinct c xs (nat k)))"

definition random_shuffle :: "(nat \<Rightarrow> nat) \<Rightarrow> 'a list \<Rightarrow> 'a list" where
  "random_shuffle c xs = pick_distinct c xs (length xs)"


section \<open>The data store (storage/memory\_store.py)\<close>

text \<open>One process-wide object.  Users and quizzes are dictionaries keyed by id; test
  results, quiz responses and conversation messages are lists kept per user or session;
  the question catalogue is a list.  The seed data is not fixed here: a store is any
  value of the record.\<close>

record store =
  users :: "(string \<times> pydict) list"
  questions :: "pydict list"
  test_results :: "(string \<times> pydict list) list"
  quiz_responses :: "(string \<times> pydict list) list"
  conversation_history :: "(string \<times> pydict list) list"
  study_sessions :: "(string \<times> pydict list) list"
  quizzes :: "(string \<times> pydict) list"

text \<open>\<^verbatim>\<open>d.update(other)\<close>: the pairs of \<open>other\<close> are written in their order.\<close>

definition dict_update :: "pydict \<Rightarrow> pydict \<Rightarrow> pydict" where
  "dict_update d other = fold (\<lambda>(k, v) acc. AList.update k v acc) other d"

definition get_user :: "store \<Rightarrow> string \<Rightarrow> pydict option" where
  "get_user st user_id = map_of (users st) user_id"

definition update_user :: "string \<Rightarrow> pydict \<Rightarrow> store \<Rightarrow> bool \<times> store" where
  "update_user user_id updates st =
     (case map_of (users st) user_id of
        Some u \<Rightarrow> (True, st\<lparr>users := AList.update user_id (dict_update u updates) (users st)\<rparr>)
      | None \<Rightarrow> (False, st))"

definition add_test_result :: "string \<Rightarrow> pydict \<Rightarrow> store \<Rightarrow> store" where
  "add_test_result user_id result st =
     st\<lparr>test_results :=
          AList.update user_id
            ((case map_of (test_results st) user_id of None \<Rightarrow> [] | Some rs \<Rightarrow> rs) @ [result])
            (test_results st)\<rparr>"

definition get_test_results :: "store \<Rightarrow> string \<Rightarrow> pydict list" where
  "get_test_results st user_id =
     (case map_of (test_results st) user_id of None \<Rightarrow> [] | Some rs \<Rightarrow> rs)"

definition add_quiz_response :: "string \<Rightarrow> pydict \<Rightarrow> store \<Rightarrow> store" where
  "add_quiz_response user_id response st =
     st\<lparr>quiz_responses :=
          AList.update user_id
            ((case map_of (quiz_responses st) user_id of None \<Rightarrow> [] | Some rs \<Rightarrow> rs) @ [response])
            (quiz_responses st)\<rparr>"

definition get_quiz_responses :: "store \<Rightarrow> string \<Rightarrow> pydict list" where
  "get_quiz_responses st user_id =
     (case map_of (quiz_responses st) user_id of None \<Rightarrow> [] | Some rs \<Rightarrow> rs)"

definition add_conversation_message :: "string \<Rightarrow> pydict \<Rightarrow> store \<Rightarrow> store" where
  "add_conversation_message session_id message st =
     st\<lparr>conversation_history :=
          AList.update session_id
            ((case map_of (conversation_history st) session_id of None \<Rightarrow> [] | Some ms \<Rightarrow> ms)
               @ [message])
            (conversation_history st)\<rparr>"

definition get_conversation_history :: "store \<Rightarrow> string \<Rightarrow> nat \<Rightarrow> pydict list" where
  "get_conversation_history st session_id limit =
     (let messages = (case map_of (conversation_history st) session_id of
                        None \<Rightarrow> [] | Some ms \<Rightarrow> ms)
      in if messages \<noteq> [] then (if limit = 0 then messages else lastn limit messages) else [])"

definition save_quiz :: "string \<Rightarrow> pydict \<Rightarrow> store \<Rightarrow> store" where
  "save_quiz quiz_id quiz_data st = st\<lparr>quizzes := AList.update quiz_id quiz_data (quizzes st)\<rparr>"

text \<open>\<^verbatim>\<open>get_questions(filters, limit)\<close>: each filter applies when its key is present.\<close>

definition get_questions :: "store \<Rightarrow> pydict \<Rightarrow> int \<Rightarrow> pydict list" where
  "get_questions st filters limit =
     (let qs0 = questions st;
          qs1 = (if has_key filters ''test_type''
                 then filter (\<lambda>q. dict_get q ''test_type'' = dict_get filters ''test_type'') qs0
                 else qs0);
          qs2 = (if has_key filters ''section''
                 then filter (\<lambda>q. dict_get q ''section'' = dict_get filters ''section'') qs1
                 else qs1);
          qs3 = (if has_key filters ''topic''
                 then filter (\<lambda>q. dict_get q ''topic'' = dict_get filters ''topic'') qs2
                 else qs2);
          qs4 = (if has_key filters ''difficulty''
                 then (case dict_get filters ''difficulty'' of
                         JList ds \<Rightarrow> filter (\<lambda>q. dict_get q ''difficulty'' \<in> set ds) qs3
                       | d \<Rightarrow> filter (\<lambda>q. dict_get q ''difficulty'' = d) qs3)
                 else qs3)
      in slice_to qs4 limit)"

section \<open>Profile tools (tools/user\_profile.py)\<close>

text \<open>\<^verbatim>\<open>update_user_profile\<close> drops the keys \<^verbatim>\<open>user_id\<close> and \<^verbatim>\<open>email\<close> from the updates and
  writes the rest into the stored user.\<close>

definition protected_fields :: "string list" where
  "protected_fields = [''user_id'', ''email'']"

definition update_user_profile :: "string \<Rightarrow> pydict \<Rightarrow> store \<Rightarrow> json \<times> store" where
  "update_user_profile user_id updates st =
     (let safe_updates = filter (\<lambda>(k, v). k \<notin> set protected_fields) updates;
          (success, st') = update_user user_id safe_updates st
      in if \<not> success
         then (JObj [(''error'', JStr ''User not found''), (''user_id'', JStr user_id),
                     (''success'', JBool False)], st')
         else (JObj [(''success'', JBool True),
                     (''message'', JStr ''Profile updated successfully''),
                     (''updated_fields'', JList (map (\<lambda>(k, v). JStr k) safe_updates))], st'))"

text \<open>\<^verbatim>\<open>get_user_profile\<close>.  The number of days until the test depends on the clock and on
  date parsing; \<open>days_until\<close> stands for that computation (\<open>None\<close> when the date does not
  parse).  A stored user that is empty counts as missing, as \<^verbatim>\<open>not user\<close> does.\<close>

definition get_user_profile :: "(string \<Rightarrow> int option) \<Rightarrow> string \<Rightarrow> store \<Rightarrow> json" where
  "get_user_profile days_until user_id st =
     (case get_user st user_id of
        None \<Rightarrow> JObj [(''error'', JStr ''User not found''), (''user_id'', JStr user_id)]
      | Some user \<Rightarrow>
          if user = [] then JObj [(''error'', JStr ''User not found''), (''user_id'', JStr user_id)]
          else
            let days_until_test =
                  (if truthy (dict_get user ''test_date'')
                   then (case dict_get user ''test_date'' of
                           JStr d \<Rightarrow> (case days_until d of Some n \<Rightarrow> JInt n | None \<Rightarrow> JNull)
                         | _ \<Rightarrow> JNull)
                   else JNull)
            in JObj [(''user_id'', dict_get user ''user_id''),
                     (''name'', dict_get user ''name''),
                     (''email'', dict_get user ''email''),
                     (''test_type'', dict_get user ''test_type''),
                     (''target_score'', dict_get user ''target_score''),
                     (''test_date'', dict_get user ''test_date''),
                     (''baseline_score'', dict_get user ''baseline_score''),
                     (''current_level'', dict_get user ''current_level''),
                     (''study_hours_per_week'', dict_get user ''study_hours_per_week''),
                     (''preferences'', dict_get_default user ''preferences'' (JObj [])),
                     (''days_until_test'', days_until_test)])"


section \<open>Quiz tools (tools/quiz\_management.py)\<close>

definition find_question :: "store \<Rightarrow> json \<Rightarrow> pydict option" where
  "find_question st qid = find (\<lambda>q. dict_get q ''question_id'' = qid) (questions st)"

text \<open>The per-topic tally \<^verbatim>\<open>topic_performance\<close>: topic \<open>\<mapsto>\<close> (total, correct).\<close>

definition bump_topic :: "(json \<times> nat \<times> nat) list \<Rightarrow> json \<Rightarrow> bool \<Rightarrow> (json \<times> nat \<times> nat) list" where
  "bump_topic tp topic ok =
     (let (total, correct) = (case map_of tp topic of None \<Rightarrow> (0, 0) | Some p \<Rightarrow> p)
      in AList.update topic (total + 1, if ok then correct + 1 else correct) tp)"

definition topic_performance_of :: "store \<Rightarrow> pydict list \<Rightarrow> (json \<times> nat \<times> nat) list" where
  "topic_performance_of st recent_responses =
     fold (\<lambda>response tp.
             case find_question st (dict_get response ''question_id'') of
               None \<Rightarrow> tp
             | Some question \<Rightarrow>
                 if question = [] then tp
                 else bump_topic tp (dict_get question ''topic'')
                        (truthy (dict_get response ''is_correct'')))
          recent_responses []"

definition weak_topics_of :: "(json \<times> nat \<times> nat) list \<Rightarrow> json list" where
  "weak_topics_of tp =
     map fst (filter (\<lambda>(topic, total, correct).
                        3 \<le> total \<and> (of_nat correct / of_nat total :: rat) < 7 / 10) tp)"

text \<open>The questions of the user's test type (and section), or of any test type when there
  are none.\<close>

definition matching_questions :: "store \<Rightarrow> json \<Rightarrow> json \<Rightarrow> pydict list" where
  "matching_questions st test_type section =
     (let filters = [(''test_type'', test_type)]
                      @ (if truthy section then [(''section'', section)] else []);
          all_questions = get_questions st filters 1000
      in if all_questions = []
         then get_questions st (if truthy section then [(''section'', section)] else []) 1000
         else all_questions)"

text \<open>Questions answered among the last twenty responses are left out, unless that
  leaves fewer than the requested size while the whole list would do.\<close>

definition available_questions_of :: "pydict list \<Rightarrow> pydict list \<Rightarrow> int \<Rightarrow> pydict list" where
  "available_questions_of all_questions recent_responses quiz_size =
     (let recent_question_ids =
            set (map (\<lambda>r. dict_get r ''question_id'') (lastn 20 recent_responses));
          available = filter (\<lambda>q. dict_get q ''question_id'' \<notin> recent_question_ids) all_questions
      in if int (length available) < quiz_size \<and> quiz_size \<le> int (length all_questions)
         then all_questions else available)"

text \<open>Target topics narrow the choice when some question has one of them.  The topics are
  read as a list, as the tool schema declares them; another non-empty value is outside
  this model and shown as a \<^verbatim>\<open>TypeError\<close>.\<close>

definition prioritise :: "json \<Rightarrow> pydict list \<Rightarrow> exn + pydict list" where
  "prioritise target_topics available =
     (if truthy target_topics
      then (case target_topics of
              JList ts \<Rightarrow>
                (let prioritized = filter (\<lambda>q. dict_get q ''topic'' \<in> set ts) available
                 in Inr (if prioritized \<noteq> [] then prioritized else available))
            | _ \<Rightarrow> Inl (TypeError ''topics is not a list''))
      else Inr available)"

text \<open>The draw: 30 percent easy, 50 percent medium, the rest hard, each from the
  questions of that difficulty when there are any; then a fill from the questions not
  yet selected; then a shuffle.  \<open>rnd 0\<close> to \<open>rnd 4\<close> are the oracles of the five random
  operations.\<close>

definition sample_if_any :: "(nat \<Rightarrow> nat) \<Rightarrow> pydict list \<Rightarrow> int \<Rightarrow> exn + pydict list" where
  "sample_if_any c qs num =
     (if qs \<noteq> [] then random_sample c qs (min num (int (length qs))) else Inr [])"

definition select_questions :: "(nat \<Rightarrow> nat \<Rightarrow> nat) \<Rightarrow> pydict list \<Rightarrow> int \<Rightarrow> exn + pydict list" where
  "select_questions rnd available quiz_size =
     (let easy = filter (\<lambda>q. dict_get q ''difficulty'' = JStr ''easy'') available;
          medium = filter (\<lambda>q. dict_get q ''difficulty'' = JStr ''medium'') available;
          hard = filter (\<lambda>q. dict_get q ''difficulty'' = JStr ''hard'') available;
          num_easy = py_trunc (of_int quiz_size * (3 / 10));
          num_medium = py_trunc (of_int quiz_size * (1 / 2));
          num_hard = quiz_size - num_easy - num_medium
      in case sample_if_any (rnd 0) easy num_easy of
           Inl e \<Rightarrow> Inl e
         | Inr s1 \<Rightarrow>
        (case sample_if_any (rnd 1) medium num_medium of
           Inl e \<Rightarrow> Inl e
         | Inr s2 \<Rightarrow>
        (case sample_if_any (rnd 2) hard num_hard of
           Inl e \<Rightarrow> Inl e
         | Inr s3 \<Rightarrow>
            let selected = s1 @ s2 @ s3
            in case (if int (length selected) < quiz_size
                     then let remaining = filter (\<lambda>q. q \<notin> set selected) available;
                              needed = quiz_size - int (length selected)
                          in random_sample (rnd 3) remaining (min needed (int (length remaining)))
                     else Inr []) of
                 Inl e \<Rightarrow> Inl e
               | Inr s4 \<Rightarrow> Inr (random_shuffle (rnd 4) (selected @ s4)))))"

definition quiz_question_view :: "nat \<times> pydict \<Rightarrow> json" where
  "quiz_question_view p =
     (case p of (idx, q) \<Rightarrow>
        JObj [(''question_number'', JInt (int idx + 1)),
              (''question_id'', dict_get q ''question_id''),
              (''content'', dict_get q ''content''),
              (''options'', dict_get q ''options''),
              (''difficulty'', dict_get q ''difficulty''),
              (''topic'', dict_get q ''topic''),
              (''estimated_time'', dict_get_default q ''average_time'' (JInt 90))])"

text \<open>\<^verbatim>\<open>generate_adaptive_quiz(user_id, config)\<close>.  The fresh quiz id and the two clock
  readings are parameters.  The size is read as an integer, as the tool schema and the
  HTTP request model declare it (default 20); another value is outside this model and
  shown as a \<^verbatim>\<open>TypeError\<close>.\<close>

definition generate_adaptive_quiz ::
  "(nat \<Rightarrow> nat \<Rightarrow> nat) \<Rightarrow> string \<Rightarrow> string \<Rightarrow> string \<Rightarrow> string \<Rightarrow> pydict \<Rightarrow> store
     \<Rightarrow> (exn + json) \<times> store" where
  "generate_adaptive_quiz rnd new_uuid now_saved now_returned user_id config st =
     (let not_found = JObj [(''error'', JStr (''User not found: '' @ user_id)),
                            (''message'', JStr ''User profile not found. Please check the user ID.'')]
      in case get_user st user_id of
        None \<Rightarrow> (Inr not_found, st)
      | Some user \<Rightarrow>
          if user = [] then (Inr not_found, st)
          else
           (case dict_get_default config ''size'' (JInt 20) of
              JInt quiz_size \<Rightarrow>
                let test_type = dict_get_default config ''test_type'' (dict_get user ''test_type'');
                    section = dict_get config ''section'';
                    focus_topics = dict_get_default config ''topics'' (JList []);
                    responses = get_quiz_responses st user_id;
                    recent_responses =
                      (if 50 < length responses then lastn 50 responses else responses);
                    weak_topics = weak_topics_of (topic_performance_of st recent_responses);
                    all_questions = matching_questions st test_type section;
                    target_topics = (if truthy focus_topics then focus_topics else JList weak_topics);
                    available_questions =
                      available_questions_of all_questions recent_responses quiz_size
                in if available_questions = []
                   then (Inr (JObj [(''error'', JStr ''No questions available matching criteria''),
                                    (''details'', JStr (''Tried test_type='' @ [CHR 0x27]
                                       @ py_str test_type @ [CHR 0x27] @ '', section='' @ [CHR 0x27]
                                       @ py_str section @ [CHR 0x27] @ '', found ''
                                       @ str_of_nat (length all_questions) @ '' total questions''))]),
                         st)
                   else
                    (case prioritise target_topics available_questions of
                       Inl e \<Rightarrow> (Inl e, st)
                     | Inr available \<Rightarrow>
                    (case select_questions rnd available quiz_size of
                       Inl e \<Rightarrow> (Inl e, st)
                     | Inr selected_questions \<Rightarrow>
                        let quiz_data = [(''quiz_id'', JStr new_uuid),
                                         (''user_id'', JStr user_id),
                                         (''created_at'', JStr now_saved),
                                         (''questions'', JList (map JObj selected_questions))];
                            st' = save_quiz new_uuid quiz_data st
                        in (Inr (JObj
                              [(''success'', JBool True),
                               (''message'', JStr (''Successfully created a personalized quiz with ''
                                  @ str_of_nat (length selected_questions) @ '' questions'')),
                               (''quiz_id'', JStr new_uuid),
                               (''user_id'', JStr user_id),
                               (''created_at'', JStr now_returned),
                               (''total_questions'', JInt (int (length selected_questions))),
                               (''section'', if truthy section then section else JStr ''mixed''),
                               (''focus_areas'',
                                  (case target_topics of
                                     JList ts \<Rightarrow> if ts \<noteq> [] then JList (take 3 ts)
                                                 else JList [JStr ''general'']
                                   | _ \<Rightarrow> JList [JStr ''general''])),
                               (''questions'',
                                  JList (map quiz_question_view (enumerate 0 selected_questions)))]),
                            st')))
            | _ \<Rightarrow> (Inl (TypeError ''size is not an integer''), st)))"

text \<open>\<^verbatim>\<open>submit_quiz_response(user_id, quiz_id, responses)\<close>.  The loop over the responses
  carries the feedback entries, the number of correct answers and the time; a response
  whose question is not in the catalogue is skipped.  The time spent (default 0) is added
  to an integer total: an integer or a boolean adds its value, and adding \<^verbatim>\<open>None\<close>, a
  string or a container raises \<^verbatim>\<open>TypeError\<close>.  Fresh response ids and clock readings are
  parameters.\<close>

fun int_of_json :: "json \<Rightarrow> int option" where
  "int_of_json (JInt i) = Some i"
| "int_of_json (JBool b) = Some (if b then 1 else 0)"
| "int_of_json _ = None"

fun submit_loop ::
  "(nat \<Rightarrow> string) \<Rightarrow> (nat \<Rightarrow> string) \<Rightarrow> string \<Rightarrow> json \<Rightarrow> pydict list
     \<Rightarrow> pydict list \<times> nat \<times> int \<Rightarrow> store \<Rightarrow> (exn + pydict list \<times> nat \<times> int) \<times> store" where
  "submit_loop uuids nows user_id quiz_id [] acc st = (Inr acc, st)"
| "submit_loop uuids nows user_id quiz_id (response_data # rest) acc st =
     (case acc of (results, total_correct, total_time) \<Rightarrow>
      let question_id = dict_get response_data ''question_id'';
          user_answer = dict_get response_data ''answer'';
          time_spent = dict_get_default response_data ''time_spent'' (JInt 0)
      in case find_question st question_id of
           None \<Rightarrow> submit_loop uuids nows user_id quiz_id rest acc st
         | Some question \<Rightarrow>
             if question = [] then submit_loop uuids nows user_id quiz_id rest acc st
             else
               let is_correct = (user_answer = dict_get question ''correct_answer'');
                   total_correct' = (if is_correct then total_correct + 1 else total_correct)
               in case int_of_json time_spent of
                    Some t \<Rightarrow>
                      let st' = add_quiz_response user_id
                                  [(''response_id'', JStr (uuids (length results))),
                                   (''quiz_id'', quiz_id),
                                   (''question_id'', question_id),
                                   (''user_answer'', user_answer),
                                   (''is_correct'', JBool is_correct),
                                   (''time_spent'', time_spent),
                                   (''timestamp'', JStr (nows (length results))),
                                   (''topic'', dict_get question ''topic''),
                                   (''difficulty'', dict_get question ''difficulty'')] st;
                          entry = [(''question_id'', JStr (py_str question_id)),
                                   (''user_answer'', user_answer),
                                   (''correct_answer'', dict_get question ''correct_answer''),
                                   (''is_correct'', JBool is_correct),
                                   (''topic'', dict_get question ''topic''),
                                   (''difficulty'', dict_get question ''difficulty''),
                                   (''explanation'',
                                      if \<not> is_correct then dict_get question ''explanation''
                                      else JNull)]
                      in submit_loop uuids nows user_id quiz_id rest
                           (results @ [entry], total_correct', total_time + t) st'
                  | None \<Rightarrow> (Inl (TypeError ''unsupported operand type(s) for +=''), st))"

text \<open>The returned dictionary.  \<^verbatim>\<open>accuracy\<close> and \<^verbatim>\<open>average_time_per_question\<close> are floats
  (the integer 0 for an empty list): the quotient of two integers is a float, the product
  with 100 is a float, and \<^verbatim>\<open>round(x, 2)\<close> is applied to the float.\<close>

record quiz_feedback =
  fb_quiz_id :: json
  fb_total_questions :: nat
  fb_correct_answers :: nat
  fb_accuracy :: rat
  fb_total_time_seconds :: int
  fb_average_time_per_question :: rat
  fb_performance_level :: string
  fb_results :: "pydict list"

definition submit_quiz_response ::
  "(nat \<Rightarrow> string) \<Rightarrow> (nat \<Rightarrow> string) \<Rightarrow> string \<Rightarrow> json \<Rightarrow> pydict list \<Rightarrow> store
     \<Rightarrow> (exn + quiz_feedback) \<times> store" where
  "submit_quiz_response uuids nows user_id quiz_id responses st =
     (case submit_loop uuids nows user_id quiz_id responses ([], 0, 0) st of
        (Inl e, st') \<Rightarrow> (Inl e, st')
      | (Inr (results, total_correct, total_time), st') \<Rightarrow>
          let accuracy = (if responses \<noteq> []
                          then double_of
                                 (double_of (of_nat total_correct / of_nat (length responses)) * 100)
                          else (0 :: rat));
              performance_level =
                (if 85 \<le> accuracy then ''excellent''
                 else if 70 \<le> accuracy then ''good''
                 else if 60 \<le> accuracy then ''fair''
                 else ''needs_improvement'')
          in (Inr \<lparr>fb_quiz_id = quiz_id,
                    fb_total_questions = length responses,
                    fb_correct_answers = total_correct,
                    fb_accuracy = py_round2 accuracy,
                    fb_total_time_seconds = total_time,
                    fb_average_time_per_question =
                      (if responses \<noteq> []
                       then py_round2 (double_of (of_int total_time / of_nat (length responses)))
                       else 0),
                    fb_performance_level = performance_level,
                    fb_results = results\<rparr>, st'))"

section \<open>Test results (tools/performance\_analysis.py)\<close>

definition get_latest_test_results :: "string \<Rightarrow> json \<Rightarrow> store \<Rightarrow> json" where
  "get_latest_test_results user_id test_id st =
     (let test_results = get_test_results st user_id;
          not_found = JObj [(''error'', JStr (''Test with ID '' @ py_str test_id
                                @ '' not found for user '' @ user_id)),
                            (''test_id'', test_id), (''user_id'', JStr user_id)]
      in if test_results = []
         then JObj [(''error'', JStr (''No test results found for user '' @ user_id)),
                    (''user_id'', JStr user_id),
                    (''message'',
                       JStr ''No test results found. Make sure you have taken a practice test.'')]
         else
          (case (if truthy test_id
                 then (case find (\<lambda>t. dict_get t ''test_id'' = test_id) test_results of
                         None \<Rightarrow> None
                       | Some t \<Rightarrow> if t = [] then None else Some t)
                 else Some (last test_results)) of
             None \<Rightarrow> not_found
           | Some test \<Rightarrow>
               JObj [(''success'', JBool True),
                     (''test_id'', dict_get test ''test_id''),
                     (''test_type'', dict_get test ''test_type''),
                     (''total_score'', dict_get test ''total_score''),
                     (''date_taken'', dict_get test ''date_taken''),
                     (''sections'', dict_get_default test ''sections'' (JObj [])),
                     (''completion_status'', dict_get test ''completion_status''),
                     (''message'', JStr ''Test results found successfully'')]))"

section \<open>The agent (agents/llm\_client.py)\<close>

subsection \<open>Tool schema and tool map\<close>

text \<open>The schema offered to the model (\<^verbatim>\<open>_define_tools\<close>): for each tool its name, the keys of
  its \<^verbatim>\<open>properties\<close> and its \<^verbatim>\<open>required\<close> list.  Descriptions, types and defaults play no part
  in the code modelled here.\<close>

record tool_schema =
  ts_name :: string
  ts_properties :: "string list"
  ts_required :: "string list"

definition define_tools :: "tool_schema list" where
  "define_tools =
     [\<lparr>ts_name = ''get_user_profile'', ts_properties = [''user_id''], ts_required = [''user_id'']\<rparr>,
      \<lparr>ts_name = ''get_learning_history'', ts_properties = [''user_id'', ''days''],
        ts_required = [''user_id'']\<rparr>,
      \<lparr>ts_name = ''get_latest_test_results'', ts_properties = [''user_id'', ''test_id''],
        ts_required = [''user_id'']\<rparr>,
      \<lparr>ts_name = ''analyze_performance_by_topic'',
        ts_properties = [''user_id'', ''section'', ''timeframe''],
        ts_required = [''user_id'', ''section'']\<rparr>,
      \<lparr>ts_name = ''identify_error_patterns'', ts_properties = [''user_id''],
        ts_required = [''user_id'']\<rparr>,
      \<lparr>ts_name = ''compare_progress'', ts_properties = [''user_id'', ''comparison_type''],
        ts_required = [''user_id'']\<rparr>,
      \<lparr>ts_name = ''generate_adaptive_quiz'', ts_properties = [''user_id'', ''config''],
        ts_required = [''user_id'', ''config'']\<rparr>,
      \<lparr>ts_name = ''generate_study_recommendations'', ts_properties = [''user_id''],
        ts_required = [''user_id'']\<rparr>,
      \<lparr>ts_name = ''get_progress_summary'', ts_properties = [''user_id''],
        ts_required = [''user_id'']\<rparr>,
      \<lparr>ts_name = ''track_study_streak'', ts_properties = [''user_id''],
        ts_required = [''user_id'']\<rparr>,
      \<lparr>ts_name = ''get_question_explanation'', ts_properties = [''question_id'', ''detailed''],
        ts_required = [''question_id'']\<rparr>,
      \<lparr>ts_name = ''generate_encouragement'', ts_properties = [''user_id'', ''context''],
        ts_required = [''user_id'']\<rparr>,
      \<lparr>ts_name = ''generate_bar_chart_data'', ts_properties = [''user_id'', ''test_id''],
        ts_required = [''user_id'']\<rparr>]"

text \<open>The dispatch table (\<^verbatim>\<open>_create_tool_map\<close>): tool name \<open>\<mapsto>\<close> the Python function, given here
  by its parameter names and by those without a default.\<close>

record py_signature =
  sig_params :: "string list"
  sig_required :: "string list"

definition create_tool_map :: "(string \<times> py_signature) list" where
  "create_tool_map =
     [(''get_user_profile'', \<lparr>sig_params = [''user_id''], sig_required = [''user_id'']\<rparr>),
      (''update_user_profile'',
         \<lparr>sig_params = [''user_id'', ''updates''], sig_required = [''user_id'', ''updates'']\<rparr>),
      (''get_learning_history'',
         \<lparr>sig_params = [''user_id'', ''days''], sig_required = [''user_id'']\<rparr>),
      (''get_latest_test_results'',
         \<lparr>sig_params = [''user_id'', ''test_id''], sig_required = [''user_id'']\<rparr>),
      (''analyze_performance_by_topic'',
         \<lparr>sig_params = [''user_id'', ''section'', ''timeframe''],
          sig_required = [''user_id'', ''section'']\<rparr>),
      (''identify_error_patterns'',
         \<lparr>sig_params = [''user_id'', ''question_ids''], sig_required = [''user_id'']\<rparr>),
      (''compare_progress'',
         \<lparr>sig_params = [''user_id'', ''comparison_type''], sig_required = [''user_id'']\<rparr>),
      (''generate_bar_chart_data'',
         \<lparr>sig_params = [''user_id'', ''test_id''], sig_required = [''user_id'']\<rparr>),
      (''search_questions'',
         \<lparr>sig_params = [''filters'', ''limit''], sig_required = [''filters'']\<rparr>),
      (''generate_adaptive_quiz'',
         \<lparr>sig_params = [''user_id'', ''config''], sig_required = [''user_id'', ''config'']\<rparr>),
      (''submit_quiz_response'',
         \<lparr>sig_params = [''user_id'', ''quiz_id'', ''responses''],
          sig_required = [''user_id'', ''quiz_id'', ''responses'']\<rparr>),
      (''generate_study_recommendations'',
         \<lparr>sig_params = [''user_id''], sig_required = [''user_id'']\<rparr>),
      (''suggest_practice_topics'',
         \<lparr>sig_params = [''user_id'', ''section''], sig_required = [''user_id'', ''section'']\<rparr>),
      (''get_progress_summary'', \<lparr>sig_params = [''user_id''], sig_required = [''user_id'']\<rparr>),
      (''track_study_streak'', \<lparr>sig_params = [''user_id''], sig_required = [''user_id'']\<rparr>),
      (''get_question_explanation'',
         \<lparr>sig_params = [''question_id'', ''detailed''], sig_required = [''question_id'']\<rparr>),
      (''explain_topic_concept'',
         \<lparr>sig_params = [''topic'', ''subtopic''], sig_required = [''topic'']\<rparr>),
      (''generate_encouragement'',
         \<lparr>sig_params = [''user_id'', ''context''], sig_required = [''user_id'']\<rparr>),
      (''celebrate_achievement'',
         \<lparr>sig_params = [''user_id'', ''achievement_type''],
          sig_required = [''user_id'', ''achievement_type'']\<rparr>)]"

definition get_function_params :: "string \<Rightarrow> string list" where
  "get_function_params function_name =
     (case find (\<lambda>t. ts_name t = function_name) define_tools of
        Some tool \<Rightarrow> ts_properties tool
      | None \<Rightarrow> [])"

subsection \<open>What the agent is given\<close>

text \<open>The model service, the JSON codec and the bodies of the tool functions are
  parameters of the agent.  \<open>llm n msgs\<close> is the reply (or the exception) of the \<open>n\<close>-th
  request of the turn, sent with the messages \<open>msgs\<close>.  \<open>json_loads\<close> is \<open>None\<close> where
  \<^verbatim>\<open>json.loads\<close> raises.  \<open>tool_body name args w\<close> runs the function registered under
  \<open>name\<close> with keyword arguments \<open>args\<close> on the world \<open>w\<close> (the data store).\<close>

record tool_call =
  tc_id :: string
  tc_name :: string
  tc_arguments :: string

record llm_response =
  finish_reason :: string
  content :: "string option"
  tool_calls :: "tool_call list option"

record 'w agent_env =
  llm :: "nat \<Rightarrow> pydict list \<Rightarrow> exn + llm_response"
  json_loads :: "string \<Rightarrow> json option"
  json_dumps :: "json \<Rightarrow> string"
  tool_body :: "string \<Rightarrow> pydict \<Rightarrow> 'w \<Rightarrow> (exn + json) \<times> 'w"
  system_prompt :: string

text \<open>The state of one turn: the conversation sent to the model, the record of tool
  calls, the world, and two ghost fields that the code does not have: the number of
  requests sent to the model so far, and the calls in which a tool function was really
  entered, with the keyword arguments it received.\<close>

record 'w turn_state =
  messages :: "pydict list"
  tool_calls_made :: "(string \<times> json) list"
  world :: 'w
  requests :: nat
  invoked :: "(string \<times> pydict) list"

subsection \<open>Executing one tool call\<close>

text \<open>\<^verbatim>\<open>func(**arguments)\<close>: the arguments must be a dictionary whose keys are parameters of
  the function and cover the parameters without default; otherwise the call raises
  \<^verbatim>\<open>TypeError\<close> before the function is entered.\<close>

definition call_tool ::
  "'w agent_env \<Rightarrow> py_signature \<Rightarrow> string \<Rightarrow> json \<Rightarrow> 'w
     \<Rightarrow> (exn + json) \<times> 'w \<times> (string \<times> pydict) list" where
  "call_tool env sg function_name arguments w =
     (case arguments of
        JObj d \<Rightarrow>
          if set (map fst d) \<subseteq> set (sig_params sg) \<and> set (sig_required sg) \<subseteq> set (map fst d)
          then (case tool_body env function_name d w of
                  (r, w') \<Rightarrow> (r, w', [(function_name, d)]))
          else (Inl (TypeError (function_name @ ''() got unexpected or missing arguments'')), w, [])
      | _ \<Rightarrow> (Inl (TypeError (function_name @ ''() argument after ** must be a mapping'')), w, []))"

text \<open>\<^verbatim>\<open>_execute_tool\<close>: an unknown name yields an error payload; an exception of the call
  is caught and turned into an error payload.\<close>

definition execute_tool ::
  "'w agent_env \<Rightarrow> string \<Rightarrow> json \<Rightarrow> 'w \<Rightarrow> (exn + json) \<times> 'w \<times> (string \<times> pydict) list" where
  "execute_tool env function_name arguments w =
     (case map_of create_tool_map function_name of
        None \<Rightarrow> (Inr (JObj [(''error'', JStr (''Unknown function: '' @ function_name))]), w, [])
      | Some func \<Rightarrow>
          (case call_tool env func function_name arguments w of
             (Inr result, w', entered) \<Rightarrow> (Inr result, w', entered)
           | (Inl e, w', entered) \<Rightarrow> (Inr (JObj [(''error'', JStr (exn_str e))]), w', entered)))"

text \<open>The arguments of a tool call, as the loop prepares them: the decoded text (an empty
  dictionary when decoding fails), with the caller's \<^verbatim>\<open>user_id\<close> written into it when the
  schema lists \<^verbatim>\<open>user_id\<close> among the tool's properties.  Decoded arguments that are not a
  dictionary make the membership test, the assignment or \<^verbatim>\<open>.get\<close> raise.\<close>

definition prepare_arguments :: "'w agent_env \<Rightarrow> string \<Rightarrow> tool_call \<Rightarrow> exn + json" where
  "prepare_arguments env user_id tc =
     (let arguments = (case json_loads env (tc_arguments tc) of None \<Rightarrow> JObj [] | Some v \<Rightarrow> v);
          function_params = get_function_params (tc_name tc)
      in if ''user_id'' \<in> set function_params
         then (case arguments of
                 JObj d \<Rightarrow>
                   if \<not> has_key d ''user_id''
                   then Inr (JObj (AList.update ''user_id'' (JStr user_id) d))
                   else if dict_get d ''user_id'' \<noteq> JStr user_id
                   then Inr (JObj (AList.update ''user_id'' (JStr user_id) d))
                   else Inr (JObj d)
               | JList xs \<Rightarrow>
                   if JStr ''user_id'' \<in> set xs
                   then Inl (AttributeError ''list object has no attribute get'')
                   else Inl (TypeError ''list indices must be integers or slices, not str'')
               | JStr t \<Rightarrow>
                   if str_contains ''user_id'' t
                   then Inl (AttributeError ''str object has no attribute get'')
                   else Inl (TypeError ''str object does not support item assignment'')
               | _ \<Rightarrow> Inl (TypeError ''argument is not iterable''))
         else Inr arguments)"

definition tool_message :: "tool_call \<Rightarrow> string \<Rightarrow> pydict" where
  "tool_message tc text =
     [(''role'', JStr ''tool''), (''tool_call_id'', JStr (tc_id tc)),
      (''name'', JStr (tc_name tc)), (''content'', JStr text)]"

definition process_tool_call ::
  "'w agent_env \<Rightarrow> string \<Rightarrow> tool_call \<Rightarrow> 'w turn_state \<Rightarrow> exn option \<times> 'w turn_state" where
  "process_tool_call env user_id tc s =
     (case prepare_arguments env user_id tc of
        Inl e \<Rightarrow> (Some e, s)
      | Inr arguments \<Rightarrow>
          (case execute_tool env (tc_name tc) arguments (world s) of
             (Inl e, w', entered) \<Rightarrow> (Some e, s\<lparr>world := w', invoked := invoked s @ entered\<rparr>)
           | (Inr result, w', entered) \<Rightarrow>
               (None, s\<lparr>messages := messages s @ [tool_message tc (json_dumps env result)],
                        tool_calls_made := tool_calls_made s @ [(tc_name tc, arguments)],
                        world := w',
                        invoked := invoked s @ entered\<rparr>)))"

text \<open>The \<^verbatim>\<open>for\<close> loop over the tool calls of one reply; an exception ends it.\<close>

fun run_tool_calls ::
  "'w agent_env \<Rightarrow> string \<Rightarrow> tool_call list \<Rightarrow> 'w turn_state \<Rightarrow> exn option \<times> 'w turn_state" where
  "run_tool_calls env user_id [] s = (None, s)"
| "run_tool_calls env user_id (tc # tcs) s =
     (case process_tool_call env user_id tc s of
        (Some e, s') \<Rightarrow> (Some e, s')
      | (None, s') \<Rightarrow> run_tool_calls env user_id tcs s')"

subsection \<open>Checking the final text against the tool results\<close>

definition no_data_keywords :: "string list" where
  "no_data_keywords =
     [''haven't taken'', ''no test'', ''no results'', ''couldn't find'', ''could not find'',
      ''didn't find'', ''unable to find'', ''issue finding'', ''don't have any results'',
      ''hiccup'', ''issue with'', ''not being recognized'', ''verify your user'']"

definition claimed_error :: "string \<Rightarrow> bool" where
  "claimed_error response = (\<exists>keyword \<in> set no_data_keywords. str_contains keyword (py_lower response))"

text \<open>The decoded content of a message, when it decodes to a dictionary.\<close>

definition tool_payload :: "'w agent_env \<Rightarrow> pydict \<Rightarrow> pydict option" where
  "tool_payload env message =
     (case dict_get_default message ''content'' (JStr []) of
        JStr text \<Rightarrow> (case json_loads env text of Some (JObj d) \<Rightarrow> Some d | _ \<Rightarrow> None)
      | _ \<Rightarrow> None)"

definition scan_message ::
  "'w agent_env \<Rightarrow> pydict \<Rightarrow> pydict option \<times> pydict option \<Rightarrow> pydict option \<times> pydict option" where
  "scan_message env message found =
     (case found of (test_data, quiz_data) \<Rightarrow>
        (if dict_get message ''role'' = JStr ''tool''
            \<and> dict_get message ''name'' = JStr ''get_latest_test_results''
         then (case tool_payload env message of
                 Some d \<Rightarrow> if truthy (dict_get d ''success'') \<and> truthy (dict_get d ''total_score'')
                           then Some d else test_data
               | None \<Rightarrow> test_data)
         else test_data,
         if dict_get message ''role'' = JStr ''tool''
            \<and> dict_get message ''name'' = JStr ''generate_adaptive_quiz''
         then (case tool_payload env message of
                 Some d \<Rightarrow> if truthy (dict_get d ''success'') \<and> truthy (dict_get d ''quiz_id'')
                           then Some d else quiz_data
               | None \<Rightarrow> quiz_data)
         else quiz_data))"

text \<open>\<^verbatim>\<open>', '.join(v)\<close> for a value \<open>v\<close>: the strings of a list, the characters of a string or
  the keys of a dictionary; \<^verbatim>\<open>TypeError\<close> otherwise.\<close>

definition join_value :: "string \<Rightarrow> json \<Rightarrow> exn + string" where
  "join_value sep v =
     (case v of
        JList xs \<Rightarrow>
          if \<forall>x \<in> set xs. (case x of JStr t \<Rightarrow> True | _ \<Rightarrow> False)
          then Inr (join sep (map py_str xs))
          else Inl (TypeError ''sequence item: expected str instance'')
      | JStr t \<Rightarrow> Inr (join sep (map (\<lambda>c. [c]) t))
      | JObj d \<Rightarrow> Inr (join sep (map fst d))
      | _ \<Rightarrow> Inl (TypeError ''can only join an iterable''))"

definition quiz_confirmation :: "pydict \<Rightarrow> exn + string" where
  "quiz_confirmation quiz_data =
     (let total_questions = dict_get quiz_data ''total_questions'';
          focus_areas = dict_get_default quiz_data ''focus_areas'' (JList [JStr ''general'']);
          section = dict_get_default quiz_data ''section'' (JStr ''mixed'');
          part1 = ''I've created a personalized quiz for you with '' @ py_str total_questions
                    @ '' questions! '';
          part2 = (if section \<noteq> JStr ''mixed''
                   then part1 @ ''It focuses on '' @ py_str section @ ''. '' else part1)
      in if truthy focus_areas \<and> focus_areas \<noteq> JList [JStr ''general'']
         then (case join_value '', '' focus_areas of
                 Inl e \<Rightarrow> Inl e
               | Inr joined \<Rightarrow>
                   Inr (part2 @ ''The quiz covers: '' @ joined @ ''. ''
                          @ ''Ready to start when you are!''))
         else Inr (part2 @ ''Ready to start when you are!''))"

definition section_line :: "string \<times> json \<Rightarrow> string" where
  "section_line p =
     (case p of (section_name, section_data) \<Rightarrow>
        (case section_data of
           JObj sd \<Rightarrow> py_title section_name @ '': '' @ py_str (dict_get sd ''score'')
                       @ '' points ('' @ py_str (dict_get sd ''percentile'')
                       @ ''th percentile)'' @ [CHR 0x0A]
         | _ \<Rightarrow> []))"

definition test_results_summary :: "pydict \<Rightarrow> exn + string" where
  "test_results_summary test_data =
     (let total_score = dict_get test_data ''total_score'';
          sections = dict_get_default test_data ''sections'' (JObj []);
          part1 = ''I found your latest test results! You scored '' @ py_str total_score
                    @ '' total. ''
      in if truthy sections
         then (case sections of
                 JObj secs \<Rightarrow>
                   if \<forall>p \<in> set secs. (case snd p of JObj sd \<Rightarrow> True | _ \<Rightarrow> False)
                   then Inr (part1 @ ''Here's your breakdown:'' @ [CHR 0x0A, CHR 0x0A]
                               @ concat (map section_line secs)
                               @ [CHR 0x0A] @ ''Your strongest areas are Reading and Writing. ''
                               @ ''Let's focus on improving your Math sections ''
                               @ ''(Algebra and Geometry) to boost your overall score!'')
                   else Inl (AttributeError ''object has no attribute get'')
               | _ \<Rightarrow> Inl (AttributeError ''object has no attribute items''))
         else Inr part1)"

text \<open>\<^verbatim>\<open>_validate_response_against_tools\<close>.  (Its argument \<^verbatim>\<open>tool_calls_made\<close> is not read.)\<close>

definition validate_response_against_tools ::
  "'w agent_env \<Rightarrow> string \<Rightarrow> (string \<times> json) list \<Rightarrow> pydict list \<Rightarrow> exn + string" where
  "validate_response_against_tools env response made msgs =
     (if claimed_error response
      then (case fold (scan_message env) msgs (None, None) of
              (test_data, quiz_data) \<Rightarrow>
                (case quiz_data of
                   Some q \<Rightarrow> quiz_confirmation q
                 | None \<Rightarrow>
                     (case test_data of
                        Some t \<Rightarrow> test_results_summary t
                      | None \<Rightarrow> Inr response)))
      else Inr response)"

subsection \<open>The tool-calling loop\<close>

definition max_iterations :: nat where
  "max_iterations = 5"

definition assistant_message :: "llm_response \<Rightarrow> tool_call list \<Rightarrow> pydict" where
  "assistant_message response tcs =
     [(''role'', JStr ''assistant''),
      (''content'', (case content response of None \<Rightarrow> JNull | Some text \<Rightarrow> JStr text)),
      (''tool_calls'',
         JList (map (\<lambda>tc. JObj [(''id'', JStr (tc_id tc)), (''type'', JStr ''function''),
                                 (''function'', JObj [(''name'', JStr (tc_name tc)),
                                                      (''arguments'', JStr (tc_arguments tc))])])
                    tcs))]"

text \<open>The \<^verbatim>\<open>while\<close> loop.  It returns the reply that ended it (or the exception that left
  it), the value of \<^verbatim>\<open>iterations\<close> and the state.\<close>

function tool_loop ::
  "'w agent_env \<Rightarrow> string \<Rightarrow> nat \<Rightarrow> llm_response \<Rightarrow> 'w turn_state
     \<Rightarrow> (exn + llm_response) \<times> nat \<times> 'w turn_state" where
  "tool_loop env user_id iterations response s =
     (if finish_reason response = ''tool_calls'' \<and> iterations < max_iterations
      then (case tool_calls response of
              None \<Rightarrow> (Inl (TypeError ''object of type NoneType has no len()''), iterations + 1, s)
            | Some tcs \<Rightarrow>
                (case run_tool_calls env user_id tcs
                        (s\<lparr>messages := messages s @ [assistant_message response tcs]\<rparr>) of
                   (Some e, s') \<Rightarrow> (Inl e, iterations + 1, s')
                 | (None, s') \<Rightarrow>
                     (case llm env (requests s') (messages s') of
                        Inl e \<Rightarrow> (Inl e, iterations + 1, s'\<lparr>requests := requests s' + 1\<rparr>)
                      | Inr response' \<Rightarrow>
                          tool_loop env user_id (iterations + 1) response'
                            (s'\<lparr>requests := requests s' + 1\<rparr>))))
      else (Inr response, iterations, s))"
  by pat_completeness auto
termination
  by (relation "measure (\<lambda>(env, user_id, iterations, response, s). max_iterations - iterations)")
     auto

declare tool_loop.simps [simp del]

text \<open>\<^verbatim>\<open>_process_with_tools\<close>: the first request, the loop, then the check of the final
  text, which calls \<^verbatim>\<open>.lower()\<close> on it.\<close>

definition process_with_tools ::
  "'w agent_env \<Rightarrow> string \<Rightarrow> 'w turn_state \<Rightarrow> (exn + string) \<times> nat \<times> 'w turn_state" where
  "process_with_tools env user_id s =
     (case llm env (requests s) (messages s) of
        Inl e \<Rightarrow> (Inl e, 0, s\<lparr>requests := requests s + 1\<rparr>)
      | Inr response \<Rightarrow>
          (case tool_loop env user_id 0 response (s\<lparr>requests := requests s + 1\<rparr>) of
             (Inl e, iterations, s') \<Rightarrow> (Inl e, iterations, s')
           | (Inr final, iterations, s') \<Rightarrow>
               (case content final of
                  None \<Rightarrow>
                    (Inl (AttributeError ''NoneType object has no attribute lower''),
                     iterations, s')
                | Some final_response \<Rightarrow>
                    (validate_response_against_tools env final_response
                       (tool_calls_made s') (messages s'),
                     iterations, s'))))"

subsection \<open>One turn of the agent\<close>

record agent_reply =
  reply_message :: string
  reply_error :: "string option"
  reply_error_code :: "json option"
  reply_tool_calls_made :: nat
  reply_tools_used :: "string list"

text \<open>The four \<^verbatim>\<open>except\<close> clauses of \<^verbatim>\<open>process_message\<close>, in their order.\<close>

definition error_reply :: "exn \<Rightarrow> agent_reply" where
  "error_reply e =
     (case e of
        AuthenticationError m code \<Rightarrow>
          \<lparr>reply_message = ''I apologize, but there's an authentication issue with the API. ''
                            @ ''Please check your API key configuration in the .env file.'',
           reply_error = Some m,
           reply_error_code = Some (JInt (case code of Some c \<Rightarrow> c | None \<Rightarrow> 401)),
           reply_tool_calls_made = 0, reply_tools_used = []\<rparr>
      | APIError m code \<Rightarrow>
          \<lparr>reply_message = ''I encountered an API error (code ''
                            @ (case code of Some c \<Rightarrow> str_of_int c | None \<Rightarrow> ''N/A'')
                            @ ''). Please try again later.'',
           reply_error = Some m,
           reply_error_code = Some (case code of Some c \<Rightarrow> JInt c | None \<Rightarrow> JStr ''N/A''),
           reply_tool_calls_made = 0, reply_tools_used = []\<rparr>
      | OpenAIError m \<Rightarrow>
          \<lparr>reply_message = ''I encountered an error with the AI service. Please try again.'',
           reply_error = Some m, reply_error_code = None,
           reply_tool_calls_made = 0, reply_tools_used = []\<rparr>
      | _ \<Rightarrow>
          \<lparr>reply_message = ''I apologize, but I encountered an error. Let's try that again.'',
           reply_error = Some (exn_str e), reply_error_code = None,
           reply_tool_calls_made = 0, reply_tools_used = []\<rparr>)"

definition initial_state :: "'w agent_env \<Rightarrow> string \<Rightarrow> pydict list \<Rightarrow> 'w \<Rightarrow> 'w turn_state" where
  "initial_state env message history w =
     (let limited_history = (if 10 < length history
                             then lastn 10 history else history)
      in \<lparr>messages = [[(''role'', JStr ''system''), (''content'', JStr (system_prompt env))]]
                       @ limited_history
                       @ [[(''role'', JStr ''user''), (''content'', JStr message)]],
          tool_calls_made = [], world = w, requests = 0, invoked = []\<rparr>)"

definition process_message ::
  "'w agent_env \<Rightarrow> string \<Rightarrow> string \<Rightarrow> pydict list \<Rightarrow> 'w \<Rightarrow> agent_reply \<times> 'w turn_state" where
  "process_message env user_id message history w =
     (case process_with_tools env user_id (initial_state env message history w) of
        (Inr response, iterations, s) \<Rightarrow>
          (\<lparr>reply_message = response, reply_error = None, reply_error_code = None,
            reply_tool_calls_made = length (tool_calls_made s),
            reply_tools_used = map fst (tool_calls_made s)\<rparr>, s)
      | (Inl e, iterations, s) \<Rightarrow> (error_reply e, s))"

section \<open>Vocabulary of the properties\<close>

text \<open>A submitted response answers correctly when the question it names is in the
  catalogue and its answer equals that question's stored correct answer.\<close>

definition answers_correctly :: "store \<Rightarrow> pydict \<Rightarrow> bool" where
  "answers_correctly st r =
     (case find_question st (dict_get r ''question_id'') of
        None \<Rightarrow> False
      | Some q \<Rightarrow> q \<noteq> [] \<and> dict_get r ''answer'' = dict_get q ''correct_answer'')"

text \<open>A response is graded when the question it names is found in the catalogue; the
  others are skipped by the loop.\<close>

definition is_graded :: "store \<Rightarrow> pydict \<Rightarrow> bool" where
  "is_graded st r =
     (case find_question st (dict_get r ''question_id'') of
        None \<Rightarrow> False
      | Some q \<Rightarrow> q \<noteq> [])"

definition time_spent_of :: "pydict \<Rightarrow> json" where
  "time_spent_of r = dict_get_default r ''time_spent'' (JInt 0)"

text \<open>The \<^verbatim>\<open>question_id\<close> of an entry of a generated quiz.\<close>

definition view_question_id :: "json \<Rightarrow> json" where
  "view_question_id v = (case v of JObj d \<Rightarrow> dict_get d ''question_id'' | _ \<Rightarrow> JNull)"

section \<open>A small store for worked examples\<close>

text \<open>The default user of the store, a catalogue of four questions (two easy, two
  medium) and the seeded practice test.  Oracle \<open>first_choice\<close> always takes the first
  remaining position.\<close>

definition demo_user :: pydict where
  "demo_user = [(''user_id'', JStr ''mock-user''), (''email'', JStr ''student@example.com''),
                (''name'', JStr ''Suzy''), (''test_type'', JStr ''ABC Certification''),
                (''target_score'', JInt 1600), (''baseline_score'', JInt 1200),
                (''current_level'', JStr ''intermediate''), (''study_hours_per_week'', JInt 10),
                (''test_date'', JStr ''2026-01-15''),
                (''preferences'', JObj [(''preferred_study_time'', JStr ''evening'')])]"

definition demo_question :: "string \<Rightarrow> string \<Rightarrow> string \<Rightarrow> pydict" where
  "demo_question qid difficulty answer =
     [(''question_id'', JStr qid), (''test_type'', JStr ''ABC Certification''),
      (''section'', JStr ''math''), (''topic'', JStr ''algebra''),
      (''difficulty'', JStr difficulty), (''correct_answer'', JStr answer),
      (''explanation'', JStr ''see the worked solution'')]"

definition demo_test :: pydict where
  "demo_test = [(''test_id'', JStr ''test-1''), (''test_type'', JStr ''SAT''),
                (''total_score'', JInt 800),
                (''sections'', JObj [(''reading'', JObj [(''score'', JInt 240), (''percentile'', JInt 85)]),
                                     (''writing'', JObj [(''score'', JInt 220), (''percentile'', JInt 74)]),
                                     (''reasoning'', JObj [(''score'', JInt 140), (''percentile'', JInt 75)]),
                                     (''algebra'', JObj [(''score'', JInt 100), (''percentile'', JInt 25)]),
                                     (''geometry'', JObj [(''score'', JInt 100), (''percentile'', JInt 25)])]),
                (''date_taken'', JStr ''2025-10-17T10:00:00''),
                (''completion_status'', JStr ''completed'')]"

definition demo_store :: store where
  "demo_store =
     \<lparr>users = [(''mock-user'', demo_user)],
      questions = [demo_question ''q1'' ''easy'' ''A'', demo_question ''q2'' ''medium'' ''B'',
                   demo_question ''q3'' ''medium'' ''C'', demo_question ''q4'' ''easy'' ''D''],
      test_results = [(''mock-user'', [demo_test])],
      quiz_responses = [(''mock-user'', [])],
      conversation_history = [],
      study_sessions = [],
      quizzes = []\<rparr>"

text \<open>The same store with a catalogue of two questions that carry one \<^verbatim>\<open>question_id\<close>.\<close>

definition duplicate_catalogue_store :: store where
  "duplicate_catalogue_store =
     demo_store\<lparr>questions := [demo_question ''q1'' ''easy'' ''A'',
                                 demo_question ''q1'' ''medium'' ''B'']\<rparr>"

definition first_choice :: "nat \<Rightarrow> nat \<Rightarrow> nat" where
  "first_choice site remaining = 0"

definition demo_ids :: "nat \<Rightarrow> string" where
  "demo_ids i = ''id-'' @ str_of_nat i"

definition demo_responses :: "pydict list" where
  "demo_responses =
     [[(''question_id'', JStr ''q1''), (''answer'', JStr ''A''), (''time_spent'', JInt 40)],
      [(''question_id'', JStr ''unknown''), (''answer'', JStr ''A'')],
      [(''question_id'', JStr ''q2''), (''answer'', JStr ''A''), (''time_spent'', JInt 65)]]"

text \<open>A list of \<open>n\<close> responses of which the first \<open>k\<close> answer question \<^verbatim>\<open>q1\<close> correctly and
  the others answer question \<^verbatim>\<open>q2\<close> wrongly.\<close>

definition right_response :: pydict where
  "right_response = [(''question_id'', JStr ''q1''), (''answer'', JStr ''A''), (''time_spent'', JInt 40)]"

definition wrong_response :: pydict where
  "wrong_response = [(''question_id'', JStr ''q2''), (''answer'', JStr ''A''), (''time_spent'', JInt 65)]"

definition graded_responses :: "nat \<Rightarrow> nat \<Rightarrow> pydict list" where
  "graded_responses k n = replicate k right_response @ replicate (n - k) wrong_response"

text \<open>Payloads of the tool messages named \<open>name\<close> whose \<^verbatim>\<open>success\<close> and \<open>key\<close> entries are both
  truthy, in message order: what the scan of \<^verbatim>\<open>_validate_response_against_tools\<close> looks for.\<close>

definition payload_if_successful ::
  "'w agent_env \<Rightarrow> string \<Rightarrow> string \<Rightarrow> pydict \<Rightarrow> pydict list" where
  "payload_if_successful env name key m =
     (if dict_get m ''role'' = JStr ''tool'' \<and> dict_get m ''name'' = JStr name
      then (case tool_payload env m of
              Some d \<Rightarrow> if truthy (dict_get d ''success'') \<and> truthy (dict_get d key)
                        then [d] else []
            | None \<Rightarrow> [])
      else [])"

definition successful_payloads ::
  "'w agent_env \<Rightarrow> string \<Rightarrow> string \<Rightarrow> pydict list \<Rightarrow> pydict list" where
  "successful_payloads env name key msgs = concat (map (payload_if_successful env name key) msgs)"

text \<open>A tool call is well formed for the loop when preparing its arguments does not
  raise.\<close>

definition well_formed_call :: "'w agent_env \<Rightarrow> string \<Rightarrow> tool_call \<Rightarrow> bool" where
  "well_formed_call env user_id tc = (case prepare_arguments env user_id tc of Inl e \<Rightarrow> False | Inr a \<Rightarrow> True)"

text \<open>A model service always asks when it answers every request with a reply whose finish
  reason is \<^verbatim>\<open>tool_calls\<close> and whose tool calls are well formed.\<close>

definition always_asks :: "'w agent_env \<Rightarrow> string \<Rightarrow> bool" where
  "always_asks env user_id =
     (\<forall>n msgs. \<exists>r tcs. llm env n msgs = Inr r \<and> finish_reason r = ''tool_calls''
                 \<and> tool_calls r = Some tcs \<and> (\<forall>tc\<in>set tcs. well_formed_call env user_id tc))"

section \<open>Stub environments for worked examples\<close>

text \<open>A codec for the examples: values are written in Python's \<^verbatim>\<open>repr\<close> notation and read
  back through a table of the values that occur.  Two tool bodies are connected to the
  tools modelled above; the others are not part of the examples.\<close>

definition loads_table :: "json list \<Rightarrow> string \<Rightarrow> json option" where
  "loads_table known text = find (\<lambda>v. py_fmt True v = text) known"

definition demo_tool_body :: "string \<Rightarrow> pydict \<Rightarrow> store \<Rightarrow> (exn + json) \<times> store" where
  "demo_tool_body name args st =
     (if name = ''update_user_profile''
      then (case (dict_get args ''user_id'', dict_get args ''updates'') of
              (JStr u, JObj upd) \<Rightarrow> (case update_user_profile u upd st of (r, st') \<Rightarrow> (Inr r, st'))
            | _ \<Rightarrow> (Inl (AttributeError ''object has no attribute items''), st))
      else if name = ''get_latest_test_results''
      then (case dict_get args ''user_id'' of
              JStr u \<Rightarrow> (Inr (get_latest_test_results u (dict_get args ''test_id'') st), st)
            | _ \<Rightarrow> (Inl (TypeError ''unhashable type''), st))
      else (Inl (OtherException ''tool body not part of the examples''), st))"

definition demo_env :: "(nat \<Rightarrow> pydict list \<Rightarrow> exn + llm_response) \<Rightarrow> json list \<Rightarrow> store agent_env" where
  "demo_env model known =
     \<lparr>llm = model, json_loads = loads_table known, json_dumps = py_fmt True,
      tool_body = demo_tool_body,
      system_prompt = ''You are an expert test preparation coach.''\<rparr>"

text \<open>A model that answers every request with a request for one tool call and, as the
  service does for such replies, no text.\<close>

definition always_tool_call :: "nat \<Rightarrow> pydict list \<Rightarrow> exn + llm_response" where
  "always_tool_call n msgs =
     Inr \<lparr>finish_reason = ''tool_calls'', content = None,
          tool_calls = Some [\<lparr>tc_id = ''call-'' @ str_of_nat n,
                              tc_name = ''get_latest_test_results'',
                              tc_arguments = ''{}''\<rparr>]\<rparr>"

text \<open>A model that first asks for \<^verbatim>\<open>update_user_profile\<close> (a function of the tool map that
  the schema does not list) on another user's id, then answers.\<close>

definition foreign_update_arguments :: json where
  "foreign_update_arguments =
     JObj [(''user_id'', JStr ''other-user''), (''updates'', JObj [(''name'', JStr ''Mallory'')])]"

definition foreign_update_model :: "nat \<Rightarrow> pydict list \<Rightarrow> exn + llm_response" where
  "foreign_update_model n msgs =
     (if n = 0
      then Inr \<lparr>finish_reason = ''tool_calls'', content = None,
                tool_calls = Some [\<lparr>tc_id = ''call-0'', tc_name = ''update_user_profile'',
                                    tc_arguments = py_fmt True foreign_update_arguments\<rparr>]\<rparr>
      else Inr \<lparr>finish_reason = ''stop'', content = Some ''Done.'', tool_calls = None\<rparr>)"

definition two_user_store :: store where
  "two_user_store =
     demo_store\<lparr>users := users demo_store
                  @ [(''other-user'', [(''user_id'', JStr ''other-user''),
                                       (''email'', JStr ''other@example.com''),
                                       (''name'', JStr ''Olwen'')])]\<rparr>"

text \<open>A model service that raises at every request.\<close>

definition failing_model :: "exn \<Rightarrow> nat \<Rightarrow> pydict list \<Rightarrow> exn + llm_response" where
  "failing_model e n msgs = Inl e"

text \<open>A store whose only practice test has the total score 0.\<close>

definition zero_score_store :: store where
  "zero_score_store =
     demo_store\<lparr>test_results := [(''mock-user'', [AList.update ''total_score'' (JInt 0) demo_test])]\<rparr>"

section \<open>Properties: configuration\<close>

text \<open>
  C9 (as the code has it).  Settings are constructed exactly for a key that is not empty
  and whose length, after surrounding whitespace is stripped, is at least 20; the stored
  key is the stripped one.  The prefix \<^verbatim>\<open>sk-\<close> is not required: its absence prints one
  warning line and changes nothing else.
\<close>

theorem api_key_accepted_iff_long_enough:
  "(get_settings (Some v) env dbg = Inr s
      \<longleftrightarrow> v \<noteq> [] \<and> 20 \<le> length (py_strip v)
          \<and> s = \<lparr>OPENAI_API_KEY = py_strip v, ENVIRONMENT = env, DEBUG = dbg\<rparr>)
   \<and> length (fst (validate_and_strip_api_key v))
        = (if v \<noteq> [] \<and> \<not> startswith (py_strip v) ''sk-'' then 1 else 0)"
  by (auto simp: get_settings_def Settings_def validate_and_strip_api_key_def Let_def
           split: sum.splits)

text \<open>A key of 26 letters that does not start with \<^verbatim>\<open>sk-\<close> is accepted: the claim that
  such a key is rejected fails.\<close>

theorem api_key_without_prefix_accepted:
  "get_settings (Some ''abcdefghijklmnopqrstuvwxyz'') ''development'' True
     = Inr \<lparr>OPENAI_API_KEY = ''abcdefghijklmnopqrstuvwxyz'', ENVIRONMENT = ''development'',
            DEBUG = True\<rparr>
   \<and> \<not> startswith ''abcdefghijklmnopqrstuvwxyz'' ''sk-''"
  by (simp add: get_settings_def Settings_def validate_and_strip_api_key_def Let_def
        py_strip_def py_isspace_def startswith_def)

section \<open>Properties: profile update\<close>

lemma map_of_dict_update: "map_of (dict_update d other) = map_of d ++ map_of (rev other)"
  unfolding dict_update_def
proof (induction other arbitrary: d)
  case Nil
  then show ?case by simp
next
  case (Cons p ps)
  obtain k v where p: "p = (k, v)" by (cases p)
  have "map_of (fold (\<lambda>(k, v). AList.update k v) ps (AList.update k v d))
          = map_of (AList.update k v d) ++ map_of (rev ps)"
    using Cons.IH by simp
  then show ?case
    by (simp add: p update_conv' map_add_upd_left fun_eq_iff map_add_def split: option.splits)
qed

lemma map_of_rev_distinct: "distinct (map fst xs) \<Longrightarrow> map_of (rev xs) = map_of xs"
proof (induction xs)
  case Nil
  then show ?case by simp
next
  case (Cons p ps)
  obtain k v where p: "p = (k, v)" by (cases p)
  from Cons.prems p have "map_of ps k = None"
    by (simp add: map_of_eq_None_iff)
  with Cons show ?case
    by (auto simp: p fun_eq_iff map_add_def split: option.splits)
qed

lemma map_of_filter_keys:
  "map_of (filter (\<lambda>(k, v). P k) xs) k = (if P k then map_of xs k else None)"
  by (induction xs) auto


text \<open>
  C10.  For an existing user, \<^verbatim>\<open>update_user_profile\<close> changes nothing in the store but
  that user's dictionary; there the entries \<^verbatim>\<open>user_id\<close> and \<^verbatim>\<open>email\<close> are as before, whatever
  the updates say, and every other key has its updated value if the updates supply one
  and its old value otherwise.
\<close>

theorem update_user_profile_keeps_identity:
  assumes "map_of (users st) uid = Some u"
    and "distinct (map fst updates)"
  shows "\<exists>res u'. update_user_profile uid updates st = (res, st\<lparr>users := AList.update uid u' (users st)\<rparr>)
           \<and> map_of u' ''user_id'' = map_of u ''user_id''
           \<and> map_of u' ''email'' = map_of u ''email''
           \<and> (\<forall>k. k \<noteq> ''user_id'' \<and> k \<noteq> ''email'' \<longrightarrow>
                 map_of u' k = (case map_of updates k of Some v \<Rightarrow> Some v | None \<Rightarrow> map_of u k))"
proof -
  let ?safe = "filter (\<lambda>(k, v). k \<notin> set protected_fields) updates"
  let ?u' = "dict_update u ?safe"
  have d: "distinct (map fst ?safe)"
    using assms(2) by (simp add: distinct_map_filter)
  have m: "map_of ?u' = map_of u ++ map_of ?safe"
    by (simp only: map_of_dict_update map_of_rev_distinct [OF d])
  have s: "map_of ?safe k = (if k \<notin> set protected_fields then map_of updates k else None)" for k
    by (rule map_of_filter_keys)
  have "update_user_profile uid updates st
          = (JObj [(''success'', JBool True),
                   (''message'', JStr ''Profile updated successfully''),
                   (''updated_fields'', JList (map (\<lambda>(k, v). JStr k) ?safe))],
             st\<lparr>users := AList.update uid ?u' (users st)\<rparr>)"
    using assms(1) by (simp add: update_user_profile_def update_user_def Let_def)
  moreover have "map_of ?u' ''user_id'' = map_of u ''user_id''"
    unfolding m map_add_def s by (simp add: protected_fields_def)
  moreover have "map_of ?u' ''email'' = map_of u ''email''"
    unfolding m map_add_def s by (simp add: protected_fields_def)
  moreover have "\<forall>k. k \<noteq> ''user_id'' \<and> k \<noteq> ''email'' \<longrightarrow>
                 map_of ?u' k = (case map_of updates k of Some v \<Rightarrow> Some v | None \<Rightarrow> map_of u k)"
    unfolding m map_add_def s by (simp add: protected_fields_def)
  ultimately show ?thesis by blast
qed


theorem update_user_profile_keeps_identity_witness:
  "\<exists>res u'. update_user_profile ''mock-user''
               [(''user_id'', JStr ''intruder''), (''email'', JStr ''x@y''), (''name'', JStr ''Bo'')]
               demo_store
             = (res, demo_store\<lparr>users := AList.update ''mock-user'' u' (users demo_store)\<rparr>)
     \<and> map_of u' ''user_id'' = Some (JStr ''mock-user'')
     \<and> map_of u' ''email'' = Some (JStr ''student@example.com'')
     \<and> map_of u' ''name'' = Some (JStr ''Bo'')"
proof -
  let ?updates = "[(''user_id'', JStr ''intruder''), (''email'', JStr ''x@y''), (''name'', JStr ''Bo'')]"
  have a: "map_of (users demo_store) ''mock-user'' = Some demo_user"
    by (simp add: demo_store_def)
  have b: "distinct (map fst ?updates)"
    by simp
  from update_user_profile_keeps_identity [OF a b]
  obtain res u' where
    r: "update_user_profile ''mock-user'' ?updates demo_store
          = (res, demo_store\<lparr>users := AList.update ''mock-user'' u' (users demo_store)\<rparr>)"
    and i: "map_of u' ''user_id'' = map_of demo_user ''user_id''"
    and e: "map_of u' ''email'' = map_of demo_user ''email''"
    and o: "\<forall>k. k \<noteq> ''user_id'' \<and> k \<noteq> ''email'' \<longrightarrow>
                 map_of u' k = (case map_of ?updates k of Some v \<Rightarrow> Some v
                                | None \<Rightarrow> map_of demo_user k)"
    by blast
  from o have "map_of u' ''name'' = Some (JStr ''Bo'')" by simp
  with r i e show ?thesis by (auto simp: demo_user_def)
qed

section \<open>Properties: quiz submission\<close>

lemma find_question_add_quiz_response [simp]:
  "find_question (add_quiz_response u r st) = find_question st"
  by (simp add: find_question_def add_quiz_response_def fun_eq_iff)

lemma answers_correctly_add_quiz_response [simp]:
  "answers_correctly (add_quiz_response u r st) = answers_correctly st"
  by (simp add: answers_correctly_def fun_eq_iff)

lemma is_graded_add_quiz_response [simp]:
  "is_graded (add_quiz_response u r st) = is_graded st"
  by (simp add: is_graded_def fun_eq_iff)

lemma submit_loop_counts:
  "submit_loop uuids nows uid qid rs (results, c, t) st = (Inr (results', c', t'), st')
     \<Longrightarrow> c' = c + length (filter (answers_correctly st) rs)"
proof (induction rs arbitrary: results c t st)
  case Nil
  then show ?case by simp
next
  case (Cons r rs)
  show ?case
  proof (cases "find_question st (dict_get r ''question_id'')")
    case None
    with Cons.prems have "submit_loop uuids nows uid qid rs (results, c, t) st = (Inr (results', c', t'), st')"
      by simp
    from Cons.IH [OF this] None show ?thesis
      by (simp add: answers_correctly_def)
  next
    case (Some q)
    show ?thesis
    proof (cases "q = []")
      case True
      with Some Cons.prems have "submit_loop uuids nows uid qid rs (results, c, t) st = (Inr (results', c', t'), st')"
        by simp
      from Cons.IH [OF this] Some True show ?thesis
        by (simp add: answers_correctly_def)
    next
      case False
      with Some Cons.prems obtain tm where
        tm: "int_of_json (dict_get_default r ''time_spent'' (JInt 0)) = Some tm"
        by (cases "int_of_json (dict_get_default r ''time_spent'' (JInt 0))") (simp_all add: Let_def)
      let ?ok = "dict_get r ''answer'' = dict_get q ''correct_answer''"
      from Some False tm Cons.prems obtain results1 st1 where
        "submit_loop uuids nows uid qid rs (results1, (if ?ok then c + 1 else c), t + tm) st1
           = (Inr (results', c', t'), st')"
        and st1: "answers_correctly st1 = answers_correctly st"
        by (simp add: Let_def)
      from Cons.IH [OF this(1)] st1 Some False show ?thesis
        by (simp add: answers_correctly_def)
    qed
  qed
qed

text \<open>The loop returns unless a graded response carries a time that cannot be added.\<close>

lemma submit_loop_returns_iff:
  "(\<exists>acc st'. submit_loop uuids nows uid qid rs (results, c, t) st = (Inr acc, st'))
     \<longleftrightarrow> (\<forall>r\<in>set rs. is_graded st r \<longrightarrow> int_of_json (time_spent_of r) \<noteq> None)"
proof (induction rs arbitrary: results c t st)
  case Nil
  then show ?case by simp
next
  case (Cons r rs)
  show ?case
  proof (cases "is_graded st r")
    case False
    then have "submit_loop uuids nows uid qid (r # rs) (results, c, t) st
                 = submit_loop uuids nows uid qid rs (results, c, t) st"
      by (simp add: is_graded_def split: option.splits)
    with Cons.IH [of results c t st] False show ?thesis
      by simp
  next
    case True
    then obtain q where q: "find_question st (dict_get r ''question_id'') = Some q" "q \<noteq> []"
      by (auto simp add: is_graded_def split: option.splits)
    show ?thesis
    proof (cases "int_of_json (time_spent_of r)")
      case None
      with q True show ?thesis
        by (simp add: time_spent_of_def)
    next
      case (Some tm)
      with q obtain results1 c1 st1 where
        step: "submit_loop uuids nows uid qid (r # rs) (results, c, t) st
                 = submit_loop uuids nows uid qid rs (results1, c1, t + tm) st1"
        and st1: "is_graded st1 = is_graded st"
        by (simp add: Let_def time_spent_of_def)
      from Cons.IH [of results1 c1 "t + tm" st1] step st1 Some show ?thesis
        by simp
    qed
  qed
qed

lemma filter_graded_responses:
  "P right_response \<Longrightarrow> \<not> P wrong_response \<Longrightarrow> k \<le> n
     \<Longrightarrow> length (filter P (graded_responses k n)) = k"
  by (simp add: graded_responses_def)

lemma graded_responses_return:
  "\<exists>fb st'. submit_quiz_response demo_ids demo_ids ''mock-user'' (JStr ''quiz-1'')
              (graded_responses k n) demo_store = (Inr fb, st')"
proof -
  have "\<forall>r\<in>set (graded_responses k n).
          is_graded demo_store r \<longrightarrow> int_of_json (time_spent_of r) \<noteq> None"
    by (auto simp add: graded_responses_def right_response_def wrong_response_def
          time_spent_of_def dict_get_default_def)
  with submit_loop_returns_iff [of demo_ids demo_ids "''mock-user''" "JStr ''quiz-1''"
         "graded_responses k n" "[]" 0 0 demo_store]
  obtain acc st' where
    "submit_loop demo_ids demo_ids ''mock-user'' (JStr ''quiz-1'') (graded_responses k n) ([], 0, 0)
       demo_store = (Inr acc, st')"
    by blast
  then show ?thesis
    by (cases acc) (simp add: submit_quiz_response_def Let_def)
qed


text \<open>
  C5.  For a non-empty list of \<open>N\<close> responses of which \<open>k\<close> answer correctly, a call of
  \<^verbatim>\<open>submit_quiz_response\<close> that returns gives \<^verbatim>\<open>correct_answers\<close> \<open>= k\<close>,
  \<^verbatim>\<open>total_questions\<close> \<open>= N\<close> and, as \<^verbatim>\<open>accuracy\<close>, the float \<open>k / N * 100\<close> rounded to two
  decimals: the quotient and the product are binary64 operations and the rounding is that
  of \<^verbatim>\<open>round(x, 2)\<close> on the resulting float.  Responses that name an unknown question are
  skipped but still count in \<open>N\<close>.  The call returns unless a graded response carries a
  time that cannot be added to the total.
\<close>

theorem submit_quiz_response_accuracy:
  assumes "responses \<noteq> []"
  shows "(\<forall>fb st'. submit_quiz_response uuids nows uid qid responses st = (Inr fb, st')
            \<longrightarrow> fb_correct_answers fb = length (filter (answers_correctly st) responses)
              \<and> fb_total_questions fb = length responses
              \<and> fb_accuracy fb =
                  py_round2 (double_of
                    (double_of (of_nat (length (filter (answers_correctly st) responses))
                                  / of_nat (length responses)) * 100)))
       \<and> ((\<exists>fb st'. submit_quiz_response uuids nows uid qid responses st = (Inr fb, st'))
            \<longleftrightarrow> (\<forall>r\<in>set responses. is_graded st r \<longrightarrow> int_of_json (time_spent_of r) \<noteq> None))"
proof (intro conjI allI impI)
  fix fb st'
  assume run: "submit_quiz_response uuids nows uid qid responses st = (Inr fb, st')"
  then obtain results c t where
    loop: "submit_loop uuids nows uid qid responses ([], 0, 0) st = (Inr (results, c, t), st')"
    by (auto simp add: submit_quiz_response_def Let_def split: prod.splits sum.splits)
  from submit_loop_counts [OF loop]
  have c: "c = length (filter (answers_correctly st) responses)" by simp
  from run assms have fb:
    "fb_correct_answers fb = c" "fb_total_questions fb = length responses"
    "fb_accuracy fb = py_round2 (double_of (double_of (of_nat c / of_nat (length responses)) * 100))"
    by (auto simp add: submit_quiz_response_def loop Let_def)
  show "fb_correct_answers fb = length (filter (answers_correctly st) responses)"
    using fb(1) c by simp
  show "fb_total_questions fb = length responses"
    using fb(2) .
  show "fb_accuracy fb =
          py_round2 (double_of
            (double_of (of_nat (length (filter (answers_correctly st) responses))
                          / of_nat (length responses)) * 100))"
    using fb(3) c by simp
next
  have "(\<exists>fb st'. submit_quiz_response uuids nows uid qid responses st = (Inr fb, st'))
          \<longleftrightarrow> (\<exists>acc st'. submit_loop uuids nows uid qid responses ([], 0, 0) st = (Inr acc, st'))"
    by (auto simp add: submit_quiz_response_def Let_def split: prod.splits sum.splits)
  then show "(\<exists>fb st'. submit_quiz_response uuids nows uid qid responses st = (Inr fb, st'))
          \<longleftrightarrow> (\<forall>r\<in>set responses. is_graded st r \<longrightarrow> int_of_json (time_spent_of r) \<noteq> None)"
    by (simp only: submit_loop_returns_iff)
qed

theorem submit_quiz_response_accuracy_witness:
  "\<exists>fb st'. submit_quiz_response demo_ids demo_ids ''mock-user'' (JStr ''quiz-1'')
               demo_responses demo_store = (Inr fb, st')
     \<and> fb_correct_answers fb = 1 \<and> fb_total_questions fb = 3
     \<and> fb_accuracy fb = double_of (3333 / 100)"
proof -
  have a: "demo_responses \<noteq> []"
    by (simp add: demo_responses_def)
  have b: "\<forall>r\<in>set demo_responses. is_graded demo_store r \<longrightarrow> int_of_json (time_spent_of r) \<noteq> None"
    by (simp add: demo_responses_def time_spent_of_def dict_get_default_def)
  have k: "length (filter (answers_correctly demo_store) demo_responses) = 1"
    by code_simp
  have n: "length demo_responses = 3"
    by (simp add: demo_responses_def)
  have v1: "double_of (of_nat 1 / of_nat 3) = 6004799503160661 / 18014398509481984"
    by code_simp
  have v2: "double_of (6004799503160661 / 18014398509481984 * 100)
              = 2345624805922133 / 70368744177664"
    by code_simp
  have v3: "py_round2 (2345624805922133 / 70368744177664) = double_of (3333 / 100)"
    by code_simp
  note fact = submit_quiz_response_accuracy [OF a, of demo_ids demo_ids "''mock-user''"
      "JStr ''quiz-1''" demo_store]
  from fact b obtain fb st' where
    run: "submit_quiz_response demo_ids demo_ids ''mock-user'' (JStr ''quiz-1'')
            demo_responses demo_store = (Inr fb, st')"
    by blast
  from fact run have
    "fb_correct_answers fb = length (filter (answers_correctly demo_store) demo_responses)
       \<and> fb_total_questions fb = length demo_responses
       \<and> fb_accuracy fb =
           py_round2 (double_of
             (double_of (of_nat (length (filter (answers_correctly demo_store) demo_responses))
                           / of_nat (length demo_responses)) * 100))"
    by blast
  then have "fb_correct_answers fb = 1 \<and> fb_total_questions fb = 3
               \<and> fb_accuracy fb = double_of (3333 / 100)"
    unfolding k n v1 v2 v3 by simp
  with run show ?thesis
    by blast
qed

text \<open>The float is not the exact quotient.  Of 160 responses with 23 correct, the exact
  percentage is \<open>14.375\<close> and its nearest hundredth (ties to even or upwards) is \<open>14.38\<close>;
  the float product is just below \<open>14.375\<close> and the call returns \<open>14.37\<close>.\<close>

lemma accuracy_23_of_160:
  "py_round2 (double_of (double_of (of_nat 23 / of_nat 160) * 100)) = double_of (1437 / 100)"
proof -
  have v1: "double_of (of_nat 23 / of_nat 160) = 2589569785738035 / 18014398509481984"
    by code_simp
  have v2: "double_of (2589569785738035 / 18014398509481984 * 100)
              = 8092405580431359 / 562949953421312"
    by code_simp
  have v3: "py_round2 (8092405580431359 / 562949953421312) = double_of (1437 / 100)"
    by code_simp
  show ?thesis
    unfolding v1 v2 v3 ..
qed

theorem submit_quiz_response_accuracy_not_exact:
  "map_sum id fb_accuracy
     (fst (submit_quiz_response demo_ids demo_ids ''mock-user'' (JStr ''quiz-1'')
             (graded_responses 23 160) demo_store)) = Inr (double_of (1437 / 100))
   \<and> double_of (1437 / 100) \<noteq> double_of (of_int (round_half_even (23 / 160 * 100 * 100)) / 100)
   \<and> double_of (1437 / 100) \<noteq> of_int (round_half_even (23 / 160 * 100 * 100)) / 100
   \<and> round_half_even (23 / 160 * 100 * 100) = 1438
   \<and> round ((23 :: rat) / 160 * 100 * 100) = 1438"
proof -
  obtain fb st' where
    run: "submit_quiz_response demo_ids demo_ids ''mock-user'' (JStr ''quiz-1'')
            (graded_responses 23 160) demo_store = (Inr fb, st')"
    using graded_responses_return by blast
  then obtain results c t where
    loop: "submit_loop demo_ids demo_ids ''mock-user'' (JStr ''quiz-1'') (graded_responses 23 160)
             ([], 0, 0) demo_store = (Inr (results, c, t), st')"
    by (auto simp add: submit_quiz_response_def Let_def split: prod.splits sum.splits)
  have r: "answers_correctly demo_store right_response"
    by code_simp
  have w: "\<not> answers_correctly demo_store wrong_response"
    by code_simp
  have "c = length (filter (answers_correctly demo_store) (graded_responses 23 160))"
    using submit_loop_counts [OF loop] by simp
  also have "\<dots> = 23"
    by (rule filter_graded_responses [OF r w]) simp
  finally have c: "c = 23" .
  have n: "length (graded_responses 23 160) = 160" "graded_responses 23 160 \<noteq> []"
    by (simp_all add: graded_responses_def)
  from run have "fb_accuracy fb = py_round2 (double_of (double_of (of_nat 23 / of_nat 160) * 100))"
    by (auto simp add: submit_quiz_response_def loop Let_def c n)
  then have acc: "fb_accuracy fb = double_of (1437 / 100)"
    by (simp only: accuracy_23_of_160)
  have e1: "round_half_even (23 / 160 * 100 * 100) = 1438"
    by code_simp
  have e2: "round ((23 :: rat) / 160 * 100 * 100) = 1438"
    by code_simp
  have d1: "double_of (1437 / 100) \<noteq> double_of (of_int 1438 / 100)"
    by code_simp
  have d2: "double_of (1437 / 100) \<noteq> of_int 1438 / 100"
    by code_simp
  show ?thesis
    unfolding e1 e2 using run acc d1 d2 by simp
qed

section \<open>Properties: quiz generation\<close>

lemma pick_distinct_mset: "mset (pick_distinct c xs k) \<subseteq># mset xs"
proof (induction k arbitrary: xs)
  case 0
  then show ?case by simp
next
  case (Suc k)
  show ?case
  proof (cases "xs = []")
    case True
    then show ?thesis by simp
  next
    case False
    let ?i = "c (length xs) mod length xs"
    let ?rest = "take ?i xs @ drop (Suc ?i) xs"
    from False have i: "?i < length xs" by simp
    have split: "mset xs = add_mset (xs ! ?i) (mset ?rest)"
      using id_take_nth_drop [OF i] by (metis mset.simps(2) mset_append union_mset_add_mset_right)
    have "mset (pick_distinct c ?rest k) \<subseteq># mset ?rest" by (rule Suc.IH)
    with False split show ?thesis by (simp add: Let_def)
  qed
qed

lemma pick_distinct_length: "length (pick_distinct c xs k) = min k (length xs)"
proof (induction k arbitrary: xs)
  case 0
  then show ?case by simp
next
  case (Suc k)
  show ?case
  proof (cases "xs = []")
    case True
    then show ?thesis by simp
  next
    case False
    let ?i = "c (length xs) mod length xs"
    from False have i: "?i < length xs" by simp
    then have "length (take ?i xs @ drop (Suc ?i) xs) = length xs - 1" by simp
    with False Suc.IH [of "take ?i xs @ drop (Suc ?i) xs"] show ?thesis
      by (simp add: Let_def del: length_append) (metis False length_greater_0_conv min_Suc_Suc Suc_pred)
  qed
qed

lemma pick_distinct_all: "length xs \<le> k \<Longrightarrow> mset (pick_distinct c xs k) = mset xs"
proof -
  assume "length xs \<le> k"
  then have "size (mset (pick_distinct c xs k)) = size (mset xs)"
    by (simp add: pick_distinct_length)
  moreover have "mset (pick_distinct c xs k) \<subseteq># mset xs"
    by (rule pick_distinct_mset)
  ultimately show ?thesis
    using mset_subset_size [of "mset (pick_distinct c xs k)" "mset xs"]
    by (auto simp: subset_mset.less_le)
qed

lemma random_shuffle_mset [simp]: "mset (random_shuffle c xs) = mset xs"
  by (simp add: random_shuffle_def pick_distinct_all)

lemma random_sample_Inr:
  "random_sample c xs k = Inr ys \<Longrightarrow> mset ys \<subseteq># mset xs \<and> int (length ys) = k"
  by (auto simp: random_sample_def pick_distinct_mset pick_distinct_length split: if_splits)

lemma sample_if_any_Inr:
  assumes "sample_if_any c qs num = Inr ys"
  shows "mset ys \<subseteq># mset qs" and "ys \<noteq> [] \<Longrightarrow> int (length ys) \<le> num" and "num \<le> 0 \<Longrightarrow> ys = []"
  using assms random_sample_Inr [of c qs "min num (int (length qs))" ys]
  by (auto simp: sample_if_any_def split: if_splits)


lemma distinct_count_le_1: "distinct xs \<longleftrightarrow> (\<forall>a. count (mset xs) a \<le> 1)"
proof
  assume d: "distinct xs"
  show "\<forall>a. count (mset xs) a \<le> 1"
  proof
    fix a
    from d have "count (mset xs) a = (if a \<in> set xs then 1 else 0)"
      using distinct_count_atmost_1 [of xs] by blast
    then show "count (mset xs) a \<le> 1" by simp
  qed
next
  show "\<forall>a. count (mset xs) a \<le> 1 \<Longrightarrow> distinct xs"
  proof (induction xs)
    case Nil
    then show ?case by simp
  next
    case (Cons x xs)
    then have "count (mset (x # xs)) x \<le> 1" by blast
    then have "x \<notin> set xs" by (simp add: count_eq_zero_iff [symmetric])
    moreover have "\<forall>a. count (mset xs) a \<le> 1"
    proof
      fix a
      from Cons.prems have "count (mset (x # xs)) a \<le> 1" by blast
      moreover have "count (mset xs) a \<le> count (mset (x # xs)) a" by simp
      ultimately show "count (mset xs) a \<le> 1" by (rule order_trans [rotated])
    qed
    ultimately show ?case using Cons.IH by simp
  qed
qed

lemma distinct_map_mset_subseteq:
  assumes "mset ys \<subseteq># mset xs" and "distinct (map f xs)"
  shows "distinct (map f ys)"
proof -
  have "mset (map f ys) \<subseteq># mset (map f xs)"
    using assms(1) by (simp add: image_mset_subseteq_mono)
  then have c1: "count (mset (map f ys)) a \<le> count (mset (map f xs)) a" for a
    by (rule mset_subset_eq_count)
  have c2: "\<forall>a. count (mset (map f xs)) a \<le> 1"
    using assms(2) by (rule distinct_count_le_1 [THEN iffD1])
  have "\<forall>a. count (mset (map f ys)) a \<le> 1"
  proof
    fix a
    from c2 have "count (mset (map f xs)) a \<le> 1" by (rule spec)
    with c1 [of a] show "count (mset (map f ys)) a \<le> 1" by (rule order_trans)
  qed
  then show ?thesis by (rule distinct_count_le_1 [THEN iffD2])
qed

lemma mset_take_subseteq: "mset (take k xs) \<subseteq># mset xs"
  by (metis append_take_drop_id mset_append mset_subset_eq_add_left)

lemma slice_to_subseteq: "mset (slice_to xs n) \<subseteq># mset xs"
  by (simp add: slice_to_def mset_take_subseteq)

lemma three_filters_subseteq:
  assumes "\<And>x. \<not> (P x \<and> Q x)" and "\<And>x. \<not> (P x \<and> R x)" and "\<And>x. \<not> (Q x \<and> R x)"
  shows "mset (filter P xs) + mset (filter Q xs) + mset (filter R xs) \<subseteq># mset xs"
proof (rule mset_subset_eqI)
  fix a
  show "count (mset (filter P xs) + mset (filter Q xs) + mset (filter R xs)) a \<le> count (mset xs) a"
    using assms [of a] by simp
qed

lemma selected_and_rest_subseteq:
  assumes "mset sel \<subseteq># mset xs" and "mset extra \<subseteq># mset (filter (\<lambda>q. q \<notin> set sel) xs)"
  shows "mset (sel @ extra) \<subseteq># mset xs"
proof -
  have "filter (\<lambda>q. q \<in> set sel) sel = sel" by simp
  then have "mset sel = filter_mset (\<lambda>q. q \<in> set sel) (mset sel)"
    by (metis mset_filter)
  also have "\<dots> \<subseteq># filter_mset (\<lambda>q. q \<in> set sel) (mset xs)"
    using assms(1) by (rule multiset_filter_mono)
  finally have a: "mset sel \<subseteq># filter_mset (\<lambda>q. q \<in> set sel) (mset xs)" .
  have b: "mset extra \<subseteq># filter_mset (\<lambda>q. q \<notin> set sel) (mset xs)"
    using assms(2) by simp
  have "mset sel + mset extra
      \<subseteq># filter_mset (\<lambda>q. q \<in> set sel) (mset xs) + filter_mset (\<lambda>q. q \<notin> set sel) (mset xs)"
    using a b by (rule subset_mset.add_mono)
  also have "\<dots> = mset xs"
    by (rule multiset_partition [symmetric])
  finally show ?thesis by simp
qed

lemma share_bounds_nonneg:
  assumes "0 \<le> (n::int)"
  shows "0 \<le> py_trunc (of_int n * (3 / 10))" and "0 \<le> py_trunc (of_int n * (1 / 2))"
    and "py_trunc (of_int n * (3 / 10)) + py_trunc (of_int n * (1 / 2)) \<le> n"
proof -
  let ?a = "of_int n * (3 / 10) :: rat" and ?b = "of_int n * (1 / 2) :: rat"
  from assms have a0: "0 \<le> ?a" and b0: "0 \<le> ?b" by simp_all
  then show "0 \<le> py_trunc ?a" and "0 \<le> py_trunc ?b" by (simp_all add: py_trunc_def)
  have "of_int \<lfloor>?a\<rfloor> \<le> ?a" and "of_int \<lfloor>?b\<rfloor> \<le> ?b" by (rule of_int_floor_le)+
  then have "of_int \<lfloor>?a\<rfloor> + of_int \<lfloor>?b\<rfloor> \<le> ?a + ?b" by (rule add_mono)
  then have "(of_int (\<lfloor>?a\<rfloor> + \<lfloor>?b\<rfloor>) :: rat) \<le> ?a + ?b" by (simp only: of_int_add)
  also have "\<dots> \<le> of_int n" using assms by simp
  finally have "\<lfloor>?a\<rfloor> + \<lfloor>?b\<rfloor> \<le> n" by (simp only: of_int_le_iff)
  with a0 b0 show "py_trunc ?a + py_trunc ?b \<le> n" by (simp add: py_trunc_def)
qed

lemma share_bounds_neg:
  assumes "(n::int) < 0"
  shows "py_trunc (of_int n * (3 / 10)) \<le> 0" and "py_trunc (of_int n * (1 / 2)) \<le> 0"
    and "n - py_trunc (of_int n * (3 / 10)) - py_trunc (of_int n * (1 / 2)) < 0"
proof -
  let ?a = "of_int n * (3 / 10) :: rat" and ?b = "of_int n * (1 / 2) :: rat"
  from assms have a0: "?a < 0" and b0: "?b < 0" by simp_all
  then have ta: "py_trunc ?a = \<lceil>?a\<rceil>" and tb: "py_trunc ?b = \<lceil>?b\<rceil>" by (simp_all add: py_trunc_def)
  from a0 b0 show "py_trunc ?a \<le> 0" and "py_trunc ?b \<le> 0"
    unfolding ta tb by (simp_all add: ceiling_le_zero)
  have "?a \<le> of_int \<lceil>?a\<rceil>" and "?b \<le> of_int \<lceil>?b\<rceil>" by (rule le_of_int_ceiling)+
  then have "?a + ?b \<le> of_int \<lceil>?a\<rceil> + of_int \<lceil>?b\<rceil>" by (rule add_mono)
  then have "?a + ?b \<le> (of_int (\<lceil>?a\<rceil> + \<lceil>?b\<rceil>) :: rat)" by (simp only: of_int_add)
  moreover have "(of_int n :: rat) < ?a + ?b" using assms by simp
  ultimately have "(of_int n :: rat) < of_int (\<lceil>?a\<rceil> + \<lceil>?b\<rceil>)" by (rule less_le_trans [rotated])
  then have "n < \<lceil>?a\<rceil> + \<lceil>?b\<rceil>" by (simp only: of_int_less_iff)
  then show "n - py_trunc ?a - py_trunc ?b < 0" unfolding ta tb by simp
qed

lemma select_questions_Inr:
  assumes "select_questions rnd available n = Inr sel"
  shows "mset sel \<subseteq># mset available" and "int (length sel) \<le> max n 0"
proof -
  let ?easy = "filter (\<lambda>q. dict_get q ''difficulty'' = JStr ''easy'') available"
  let ?medium = "filter (\<lambda>q. dict_get q ''difficulty'' = JStr ''medium'') available"
  let ?hard = "filter (\<lambda>q. dict_get q ''difficulty'' = JStr ''hard'') available"
  let ?ne = "py_trunc (of_int n * (3 / 10))"
  let ?nm = "py_trunc (of_int n * (1 / 2))"
  let ?nh = "n - ?ne - ?nm"
  from assms obtain s1 s2 s3 s4 where
    e1: "sample_if_any (rnd 0) ?easy ?ne = Inr s1" and
    e2: "sample_if_any (rnd 1) ?medium ?nm = Inr s2" and
    e3: "sample_if_any (rnd 2) ?hard ?nh = Inr s3" and
    e4: "(if int (length (s1 @ s2 @ s3)) < n
          then random_sample (rnd 3) (filter (\<lambda>q. q \<notin> set (s1 @ s2 @ s3)) available)
                 (min (n - int (length (s1 @ s2 @ s3)))
                      (int (length (filter (\<lambda>q. q \<notin> set (s1 @ s2 @ s3)) available))))
          else Inr []) = Inr s4" and
    sel: "sel = random_shuffle (rnd 4) ((s1 @ s2 @ s3) @ s4)"
    unfolding select_questions_def Let_def
    by (auto split: sum.splits)
  let ?s = "s1 @ s2 @ s3"
  have "mset s1 + mset s2 + mset s3 \<subseteq># mset ?easy + mset ?medium + mset ?hard"
    using sample_if_any_Inr(1) [OF e1] sample_if_any_Inr(1) [OF e2] sample_if_any_Inr(1) [OF e3]
    by (intro subset_mset.add_mono)
  also have "\<dots> \<subseteq># mset available"
    by (rule three_filters_subseteq) simp_all
  finally have s_sub: "mset ?s \<subseteq># mset available" by (simp add: ac_simps)
  let ?rem = "filter (\<lambda>q. q \<notin> set ?s) available"
  have fill: "mset s4 \<subseteq># mset ?rem \<and> int (length s4) \<le> n - int (length ?s)"
    if "int (length ?s) < n"
  proof -
    from e4 that have "random_sample (rnd 3) ?rem (min (n - int (length ?s)) (int (length ?rem))) = Inr s4"
      by (simp only: if_True)
    from random_sample_Inr [OF this] show ?thesis by linarith
  qed
  have emp4: "s4 = []" if "\<not> int (length ?s) < n"
    using e4 that by (simp only: if_False) simp
  have s4_sub: "mset s4 \<subseteq># mset ?rem"
    using fill emp4 by (cases "int (length ?s) < n") simp_all
  from selected_and_rest_subseteq [OF s_sub s4_sub]
  show "mset sel \<subseteq># mset available" by (simp add: sel)
  have len4: "int (length ?s) < n \<Longrightarrow> int (length s4) \<le> n - int (length ?s)"
    using fill by blast
  have lensel: "length sel = length ?s + length s4"
    using mset_eq_length [OF random_shuffle_mset [of "rnd 4" "?s @ s4"]] by (simp add: sel)
  show "int (length sel) \<le> max n 0"
  proof (cases "0 \<le> n")
    case True
    note b = share_bounds_nonneg [OF True]
    have l1: "int (length s1) \<le> ?ne"
      using sample_if_any_Inr(2) [OF e1] b(1) by (cases "s1 = []") simp_all
    have l2: "int (length s2) \<le> ?nm"
      using sample_if_any_Inr(2) [OF e2] b(2) by (cases "s2 = []") simp_all
    have l3: "int (length s3) \<le> ?nh"
      using sample_if_any_Inr(2) [OF e3] b(3) by (cases "s3 = []") simp_all
    from l1 l2 l3 have ls: "int (length ?s) \<le> n" by simp
    show ?thesis
    proof (cases "int (length ?s) < n")
      case True
      from len4 [OF True] show ?thesis by (simp add: lensel)
    next
      case False
      from emp4 [OF False] ls show ?thesis by (simp add: lensel)
    qed
  next
    case False
    then have neg: "n < 0" by simp
    note b = share_bounds_neg [OF neg]
    have "s1 = []" using sample_if_any_Inr(3) [OF e1] b(1) by simp
    moreover have "s2 = []" using sample_if_any_Inr(3) [OF e2] b(2) by simp
    moreover have "s3 = []" using sample_if_any_Inr(3) [OF e3] b(3) by simp
    ultimately have "?s = []" by simp
    moreover from this neg have "s4 = []" using emp4 by simp
    ultimately show ?thesis by (simp add: lensel)
  qed
qed

lemma get_questions_subseteq: "mset (get_questions st filters limit) \<subseteq># mset (questions st)"
proof -
  have f: "mset (filter P xs) \<subseteq># mset xs" for P and xs :: "pydict list" by simp
  have t: "A \<subseteq># B \<Longrightarrow> B \<subseteq># C \<Longrightarrow> A \<subseteq># C" for A B C :: "pydict multiset" by simp
  show ?thesis
    unfolding get_questions_def Let_def
    by (rule t [OF slice_to_subseteq])
       (auto split: json.splits intro!: subset_mset.order_trans [OF multiset_filter_subset])
qed

lemma matching_questions_subseteq:
  "mset (matching_questions st test_type section) \<subseteq># mset (questions st)"
  by (simp add: matching_questions_def Let_def get_questions_subseteq)

lemma available_questions_of_subseteq:
  "mset (available_questions_of all_questions recent n) \<subseteq># mset all_questions"
  by (simp add: available_questions_of_def Let_def)

lemma prioritise_subseteq:
  "prioritise target available = Inr qs \<Longrightarrow> mset qs \<subseteq># mset available"
  by (auto simp: prioritise_def Let_def split: if_splits json.splits)

lemma prioritise_chain:
  assumes "prioritise t (available_questions_of (matching_questions st ty sec) recent n) = Inr av"
  shows "mset av \<subseteq># mset (questions st)"
proof -
  note prioritise_subseteq [OF assms]
  also note available_questions_of_subseteq
  also note matching_questions_subseteq
  finally show ?thesis .
qed

lemma view_ids_of_quiz:
  "map view_question_id (map quiz_question_view (enumerate k sel))
     = map (\<lambda>q. dict_get q ''question_id'') sel"
  by (induction sel arbitrary: k)
     (simp_all add: view_question_id_def quiz_question_view_def dict_get_def)

lemma generate_adaptive_quiz_success:
  assumes run: "generate_adaptive_quiz rnd new_uuid t1 t2 uid config st = (Inr (JObj r), st')"
    and ok: "dict_get r ''success'' = JBool True"
    and size: "dict_get_default config ''size'' (JInt 20) = JInt n"
  shows "\<exists>available sel. mset available \<subseteq># mset (questions st)
           \<and> select_questions rnd available n = Inr sel
           \<and> dict_get r ''questions'' = JList (map quiz_question_view (enumerate 0 sel))
           \<and> dict_get r ''total_questions'' = JInt (int (length sel))"
proof (cases "get_user st uid")
  case None
  with run have "r = [(''error'', JStr (''User not found: '' @ uid)),
                      (''message'', JStr ''User profile not found. Please check the user ID.'')]"
    by (simp add: generate_adaptive_quiz_def Let_def)
  with ok show ?thesis by (simp add: dict_get_def)
next
  case (Some user)
  show ?thesis
  proof (cases "user = []")
    case True
    with Some run have "r = [(''error'', JStr (''User not found: '' @ uid)),
                      (''message'', JStr ''User profile not found. Please check the user ID.'')]"
      by (simp add: generate_adaptive_quiz_def Let_def)
    with ok show ?thesis by (simp add: dict_get_def)
  next
    case False
    let ?recent = "if 50 < length (get_quiz_responses st uid)
                   then lastn 50 (get_quiz_responses st uid) else get_quiz_responses st uid"
    let ?target = "if truthy (dict_get_default config ''topics'' (JList []))
                   then dict_get_default config ''topics'' (JList [])
                   else JList (weak_topics_of (topic_performance_of st ?recent))"
    let ?all = "matching_questions st
                  (dict_get_default config ''test_type'' (dict_get user ''test_type''))
                  (dict_get config ''section'')"
    let ?avq = "available_questions_of ?all ?recent n"
    show ?thesis
    proof (cases "?avq = []")
      case True
      with Some False size run have "\<exists>d. r = [(''error'', JStr ''No questions available matching criteria''),
                      (''details'', d)]"
        by (auto simp add: generate_adaptive_quiz_def Let_def)
      with ok show ?thesis by (auto simp: dict_get_def)
    next
      case ne: False
      show ?thesis
      proof (cases "prioritise ?target ?avq")
        case (Inl e)
        with Some False size ne run show ?thesis
          by (simp add: generate_adaptive_quiz_def Let_def)
      next
        case (Inr available)
        then have av: "mset available \<subseteq># mset (questions st)"
          by (rule prioritise_chain)
        show ?thesis
        proof (cases "select_questions rnd available n")
          case (Inl e)
          with Some False size ne Inr run show ?thesis
            by (simp add: generate_adaptive_quiz_def Let_def)
        next
          case sel: (Inr sel)
          from Some False size ne Inr sel run
          have "\<exists>m c s f. r = [(''success'', JBool True), (''message'', m),
                      (''quiz_id'', JStr new_uuid), (''user_id'', JStr uid),
                      (''created_at'', c),
                      (''total_questions'', JInt (int (length sel))),
                      (''section'', s), (''focus_areas'', f),
                      (''questions'', JList (map quiz_question_view (enumerate 0 sel)))]"
            by (auto simp add: generate_adaptive_quiz_def Let_def)
          then have "dict_get r ''questions'' = JList (map quiz_question_view (enumerate 0 sel))"
            and "dict_get r ''total_questions'' = JInt (int (length sel))"
            by (auto simp: dict_get_def)
          with av sel show ?thesis by blast
        qed
      qed
    qed
  qed
qed


text \<open>
  C4 (as the code has it).  Let the requested size be the integer \<open>n\<close>.  A successful
  result of \<^verbatim>\<open>generate_adaptive_quiz\<close> holds at most \<open>max n 0\<close> questions and reports their
  number as \<^verbatim>\<open>total_questions\<close>: for \<open>n \<ge> 0\<close> that is at most \<open>n\<close>, and a negative size can
  still succeed, with no question.  When the catalogue holds no \<^verbatim>\<open>question_id\<close> twice, no
  \<^verbatim>\<open>question_id\<close> occurs twice among the questions of the quiz.
\<close>

theorem generate_adaptive_quiz_size_and_distinct:
  assumes "generate_adaptive_quiz rnd new_uuid t1 t2 uid config st = (Inr (JObj r), st')"
    and "dict_get r ''success'' = JBool True"
    and "dict_get_default config ''size'' (JInt 20) = JInt n"
  shows "\<exists>qs. dict_get r ''questions'' = JList qs
           \<and> dict_get r ''total_questions'' = JInt (int (length qs))
           \<and> int (length qs) \<le> max n 0
           \<and> (distinct (map (\<lambda>q. dict_get q ''question_id'') (questions st))
                \<longrightarrow> distinct (map view_question_id qs))"
proof -
  from generate_adaptive_quiz_success [OF assms(1-3)]
  obtain available sel where
    av: "mset available \<subseteq># mset (questions st)" and
    sel: "select_questions rnd available n = Inr sel" and
    r: "dict_get r ''questions'' = JList (map quiz_question_view (enumerate 0 sel))" and
    t: "dict_get r ''total_questions'' = JInt (int (length sel))"
    by blast
  let ?qs = "map quiz_question_view (enumerate 0 sel)"
  from select_questions_Inr(1) [OF sel] av
  have sub: "mset sel \<subseteq># mset (questions st)" by (rule subset_mset.order_trans)
  have "distinct (map view_question_id ?qs)"
    if ids: "distinct (map (\<lambda>q. dict_get q ''question_id'') (questions st))"
  proof -
    from sub ids have "distinct (map (\<lambda>q. dict_get q ''question_id'') sel)"
      by (rule distinct_map_mset_subseteq)
    then show ?thesis
      by (simp only: view_ids_of_quiz)
  qed
  moreover have "int (length ?qs) \<le> max n 0"
    using select_questions_Inr(2) [OF sel] by simp
  moreover have "dict_get r ''total_questions'' = JInt (int (length ?qs))"
    using t by simp
  ultimately show ?thesis using r by blast
qed

theorem generate_adaptive_quiz_size_and_distinct_witness:
  "\<exists>r st'. generate_adaptive_quiz first_choice ''quiz-1'' ''t1'' ''t2'' ''mock-user''
              [(''size'', JInt 3)] demo_store = (Inr (JObj r), st')
     \<and> dict_get r ''success'' = JBool True
     \<and> (\<exists>qs. dict_get r ''questions'' = JList qs \<and> int (length qs) \<le> 3
               \<and> distinct (map view_question_id qs))"
proof -
  have "(case generate_adaptive_quiz first_choice ''quiz-1'' ''t1'' ''t2'' ''mock-user''
               [(''size'', JInt 3)] demo_store of
           (Inr (JObj r), st') \<Rightarrow> dict_get r ''success'' = JBool True
         | _ \<Rightarrow> False)"
    by code_simp
  then obtain r st' where
    run: "generate_adaptive_quiz first_choice ''quiz-1'' ''t1'' ''t2'' ''mock-user''
            [(''size'', JInt 3)] demo_store = (Inr (JObj r), st')"
    and ok: "dict_get r ''success'' = JBool True"
    by (auto split: prod.splits sum.splits json.splits)
  have size: "dict_get_default [(''size'', JInt 3)] ''size'' (JInt 20) = JInt 3"
    by (simp add: dict_get_default_def)
  have ids: "distinct (map (\<lambda>q. dict_get q ''question_id'') (questions demo_store))"
    by code_simp
  from generate_adaptive_quiz_size_and_distinct [OF run ok size] ids run ok
  show ?thesis by auto
qed

text \<open>Two inputs at which the claim as written fails.  With the requested size \<open>-1\<close> the
  demo store yields a successful quiz of no questions, which is more than \<open>n\<close>.  With the
  catalogue that holds \<^verbatim>\<open>q1\<close> twice and the requested size 2, the medium share takes one
  entry, the too-short selection is filled from the remaining entry, and the quiz holds
  \<^verbatim>\<open>q1\<close> twice.\<close>

theorem generate_adaptive_quiz_negative_size_or_duplicates:
  "fst (generate_adaptive_quiz first_choice ''quiz-1'' ''t1'' ''t2'' ''mock-user''
          [(''size'', JInt (- 1))] demo_store)
     = Inr (JObj [(''success'', JBool True),
                  (''message'', JStr ''Successfully created a personalized quiz with 0 questions''),
                  (''quiz_id'', JStr ''quiz-1''), (''user_id'', JStr ''mock-user''),
                  (''created_at'', JStr ''t2''), (''total_questions'', JInt 0),
                  (''section'', JStr ''mixed''),
                  (''focus_areas'', JList [JStr ''general'']),
                  (''questions'', JList [])])
   \<and> \<not> int (length ([] :: json list)) \<le> - 1
   \<and> fst (generate_adaptive_quiz first_choice ''quiz-1'' ''t1'' ''t2'' ''mock-user''
          [(''size'', JInt 2)] duplicate_catalogue_store)
     = Inr (JObj [(''success'', JBool True),
                  (''message'', JStr ''Successfully created a personalized quiz with 2 questions''),
                  (''quiz_id'', JStr ''quiz-1''), (''user_id'', JStr ''mock-user''),
                  (''created_at'', JStr ''t2''), (''total_questions'', JInt 2),
                  (''section'', JStr ''mixed''),
                  (''focus_areas'', JList [JStr ''general'']),
                  (''questions'',
                   JList [JObj [(''question_number'', JInt 1), (''question_id'', JStr ''q1''),
                                (''content'', JNull), (''options'', JNull),
                                (''difficulty'', JStr ''medium''), (''topic'', JStr ''algebra''),
                                (''estimated_time'', JInt 90)],
                          JObj [(''question_number'', JInt 2), (''question_id'', JStr ''q1''),
                                (''content'', JNull), (''options'', JNull),
                                (''difficulty'', JStr ''easy''), (''topic'', JStr ''algebra''),
                                (''estimated_time'', JInt 90)]])])
   \<and> \<not> distinct (map view_question_id
          [JObj [(''question_number'', JInt 1), (''question_id'', JStr ''q1''),
                 (''content'', JNull), (''options'', JNull),
                 (''difficulty'', JStr ''medium''), (''topic'', JStr ''algebra''),
                 (''estimated_time'', JInt 90)],
           JObj [(''question_number'', JInt 2), (''question_id'', JStr ''q1''),
                 (''content'', JNull), (''options'', JNull),
                 (''difficulty'', JStr ''easy''), (''topic'', JStr ''algebra''),
                 (''estimated_time'', JInt 90)]])"
  by code_simp


end
